theory Spec2Isabelle
  imports Main "HOL-Library.List_Lexorder"
begin

section \<open>Python values used by bot.py\<close>

text \<open>
  A Python \<open>str\<close> is a sequence of Unicode code points, and \<open>len\<close> counts code points.
  The bot's literals are Cyrillic, so a \<open>str\<close> is modelled as the list of its code points
  (\<open>[1060, 1080, 1079, 1080, 1082, 1072]\<close> is "Fizika" in Cyrillic letters).  Plain ASCII
  literals are written with \<open>asc\<close>.
\<close>

type_synonym pystr = "nat list"

definition asc :: "string \<Rightarrow> pystr" where
  "asc s = map of_char s"

datatype py_error = ValueError | TypeError | KeyError | IndexError | OSError

text \<open>
  The process configuration and the two built-ins whose result depends on the Unicode
  database of the interpreter: \<open>ADMIN_IDS\<close> is the allow-list read from the environment at
  start-up; \<open>py_int s\<close> is \<open>int(s)\<close> on a \<open>str\<close>, with \<open>None\<close> for \<open>ValueError\<close>;
  \<open>py_isdigit s\<close> is \<open>s.isdigit()\<close>.  Every theorem holds for any such functions.
\<close>

record env =
  ADMIN_IDS :: "int list"
  py_int :: "pystr \<Rightarrow> int option"
  py_isdigit :: "pystr \<Rightarrow> bool"

section \<open>Taxonomy: get_subjects_for_class (bot.py 147-181)\<close>

definition Matematika :: pystr where
  "Matematika = [1052, 1072, 1090, 1077, 1084, 1072, 1090, 1080, 1082, 1072]"
definition Algebra :: pystr where
  "Algebra = [1040, 1083, 1075, 1077, 1073, 1088, 1072]"
definition Geometriya :: pystr where
  "Geometriya = [1043, 1077, 1086, 1084, 1077, 1090, 1088, 1080, 1103]"
definition Russkiy :: pystr where
  "Russkiy = [1056, 1091, 1089, 1089, 1082, 1080, 1081]"
definition Literatura :: pystr where
  "Literatura = [1051, 1080, 1090, 1077, 1088, 1072, 1090, 1091, 1088, 1072]"
definition Istoriya :: pystr where
  "Istoriya = [1048, 1089, 1090, 1086, 1088, 1080, 1103]"
definition Grecheskiy :: pystr where
  "Grecheskiy = [1043, 1088, 1077, 1095, 1077, 1089, 1082, 1080, 1081]"
definition Latyn :: pystr where
  "Latyn = [1051, 1072, 1090, 1099, 1085, 1100]"
definition Biologiya :: pystr where
  "Biologiya = [1041, 1080, 1086, 1083, 1086, 1075, 1080, 1103]"
definition Angliyskiy :: pystr where
  "Angliyskiy = [1040, 1085, 1075, 1083, 1080, 1081, 1089, 1082, 1080, 1081]"
definition Nemetskiy :: pystr where
  "Nemetskiy = [1053, 1077, 1084, 1077, 1094, 1082, 1080, 1081]"
definition Geografiya :: pystr where
  "Geografiya = [1043, 1077, 1086, 1075, 1088, 1072, 1092, 1080, 1103]"
definition Fizika :: pystr where
  "Fizika = [1060, 1080, 1079, 1080, 1082, 1072]"
definition Khimiya :: pystr where
  "Khimiya = [1061, 1080, 1084, 1080, 1103]"

definition base_subjects :: "pystr list" where
  "base_subjects =
     [Russkiy, Literatura, Istoriya, Grecheskiy, Latyn, Biologiya, Angliyskiy, Nemetskiy]"

text \<open>The body of the function after \<open>class_num_int = int(class_num)\<close>.\<close>

definition subjects_of_int :: "int \<Rightarrow> pystr list" where
  "subjects_of_int class_num_int =
     (if class_num_int \<in> {5, 6} then [Matematika] else [Algebra, Geometriya])
     @ base_subjects
     @ [Geografiya]
     @ (if class_num_int \<ge> 6 then [Fizika] else [])
     @ (if class_num_int \<ge> 7 then [Khimiya] else [])"

text \<open>
  The argument is whatever the caller read from the session: a \<open>str\<close>, or \<open>None\<close> when the
  key is absent (\<open>int(None)\<close> raises \<open>TypeError\<close>, \<open>int\<close> of a non-number \<open>ValueError\<close>).
\<close>

definition get_subjects_for_class :: "env \<Rightarrow> pystr option \<Rightarrow> py_error + pystr list" where
  "get_subjects_for_class e class_num =
     (case class_num of
        None \<Rightarrow> Inl TypeError
      | Some s \<Rightarrow>
          (case py_int e s of
             None \<Rightarrow> Inl ValueError
           | Some class_num_int \<Rightarrow> Inr (subjects_of_int class_num_int)))"


section \<open>Python and library functions used by the handlers\<close>

text \<open>
  \<open>str.split()\<close> with no argument cuts at runs of whitespace and drops empty pieces;
  \<open>py_isspace\<close> lists the code points for which \<open>str.isspace()\<close> holds.
\<close>

definition py_isspace :: "nat \<Rightarrow> bool" where
  "py_isspace c \<longleftrightarrow>
     c \<in> set [9, 10, 11, 12, 13, 28, 29, 30, 31, 32, 133, 160, 5760, 8192, 8193, 8194,
               8195, 8196, 8197, 8198, 8199, 8200, 8201, 8202, 8232, 8233, 8239, 8287,
               12288]"

fun split_from :: "pystr \<Rightarrow> pystr \<Rightarrow> pystr list" where
  "split_from cur [] = (if cur = [] then [] else [rev cur])"
| "split_from cur (c # cs) =
     (if py_isspace c
      then (if cur = [] then split_from [] cs else rev cur # split_from [] cs)
      else split_from (c # cur) cs)"

definition py_split :: "pystr \<Rightarrow> pystr list" where
  "py_split s = split_from [] s"

text \<open>\<open>str(n)\<close> for a non-negative integer: its decimal digits.\<close>

fun py_str :: "nat \<Rightarrow> pystr" where
  "py_str n = (if n < 10 then [48 + n] else py_str (n div 10) @ [48 + n mod 10])"

text \<open>
  \<open>os.path.join\<close> and \<open>os.path.splitext\<close> as \<open>posixpath\<close> defines them (separator
  \<open>/\<close> is 47, the extension separator \<open>.\<close> is 46): a component that starts with the
  separator replaces what came before it; the extension starts at the last dot of the
  last component, unless only dots precede it there.
\<close>

definition join2 :: "pystr \<Rightarrow> pystr \<Rightarrow> pystr" where
  "join2 path b =
     (if b \<noteq> [] \<and> hd b = 47 then b
      else if path = [] \<or> last path = 47 then path @ b
      else path @ [47] @ b)"

definition os_path_join :: "pystr \<Rightarrow> pystr list \<Rightarrow> pystr" where
  "os_path_join a p = foldl join2 a p"

definition splitext :: "pystr \<Rightarrow> pystr \<times> pystr" where
  "splitext p =
     (let rp = rev p;
          ext_rev = takeWhile (\<lambda>c. c \<noteq> 46 \<and> c \<noteq> 47) rp;
          rest = dropWhile (\<lambda>c. c \<noteq> 46 \<and> c \<noteq> 47) rp
      in case rest of
           [] \<Rightarrow> (p, [])
         | c # before_rev \<Rightarrow>
             if c = 47 then (p, [])
             else if \<exists>x \<in> set (takeWhile (\<lambda>c. c \<noteq> 47) before_rev). x \<noteq> 46
                  then (rev before_rev, 46 # rev ext_rev)
                  else (p, []))"

section \<open>The literals the handlers compare their input with\<close>

definition Nazad :: pystr where
  "Nazad = [1053, 1072, 1079, 1072, 1076]"
definition Nazad_k_kategoriyam :: pystr where
  "Nazad_k_kategoriyam =
     [1053, 1072, 1079, 1072, 1076, 32, 1082, 32, 1082, 1072, 1090, 1077, 1075, 1086, 1088,
      1080, 1103, 1084]"
definition Nazad_k_kategorii :: pystr where
  "Nazad_k_kategorii =
     [1053, 1072, 1079, 1072, 1076, 32, 1082, 32, 1082, 1072, 1090, 1077, 1075, 1086, 1088,
      1080, 1080]"
definition Propustit_opisanie :: pystr where
  "Propustit_opisanie =
     [1055, 1088, 1086, 1087, 1091, 1089, 1090, 1080, 1090, 1100, 32, 1086, 1087, 1080,
      1089, 1072, 1085, 1080, 1077]"
definition Da_udalit :: pystr where
  "Da_udalit = [1044, 1072, 44, 32, 1091, 1076, 1072, 1083, 1080, 1090, 1100]"
definition Net_otmenit :: pystr where
  "Net_otmenit = [1053, 1077, 1090, 44, 32, 1086, 1090, 1084, 1077, 1085, 1080, 1090, 1100]"

section \<open>The database (init_db, bot.py 46-96)\<close>

text \<open>
  One record per table row.  \<open>CURRENT_TIMESTAMP\<close> is the text SQLite stores.  A table is
  the list of its rows in rowid order; the integer primary keys come from the
  \<open>AUTOINCREMENT\<close> counters, which never reuse a value.
\<close>

type_synonym timestamp = pystr

record user_row =
  telegram_id :: int
  username :: "pystr option"
  first_name :: "pystr option"
  role :: string
  join_date :: timestamp

record material =
  m_id :: int
  m_class :: pystr
  m_subject :: pystr
  m_category :: pystr
  m_topic :: pystr
  m_file_path :: pystr
  m_file_name :: pystr
  m_file_size :: nat
  m_upload_date :: timestamp
  m_downloads :: int
  m_uploaded_by :: int

record request =
  r_id :: int
  r_user_id :: int
  r_class :: pystr
  r_subject :: pystr
  r_category :: pystr
  r_topic :: pystr
  r_description :: "pystr option"
  r_status :: string
  r_created_at :: timestamp
  r_completed_at :: "timestamp option"

section \<open>The session (context.user_data) and the world a handler runs in\<close>

text \<open>
  \<open>context.user_data\<close> is a dictionary with a fixed set of literal keys, each holding one
  type of value; a field is \<open>None\<close> when its key is absent.  The key \<open>'class'\<close> is the field
  \<open>ud_class\<close>, \<open>'req_class_num'\<close> is \<open>ud_req_class_num\<close>, and so on.  The two
  \<open>materials_info\<close> dictionaries are kept as the list of pairs they were built from; a
  later pair with the same key replaces an earlier one, so a lookup reads the list from
  the end.
\<close>

record user_data =
  ud_class :: "pystr option"
  ud_class_text :: "pystr option"
  ud_subject :: "pystr option"
  ud_category :: "pystr option"
  ud_topics :: "pystr list option"
  ud_materials_info :: "(pystr \<times> int \<times> pystr) list option"
  ud_req_class :: "pystr option"
  ud_req_class_num :: "pystr option"
  ud_req_subject :: "pystr option"
  ud_req_category :: "pystr option"
  ud_req_topic :: "pystr option"
  ud_add_class :: "pystr option"
  ud_add_class_num :: "pystr option"
  ud_add_subject :: "pystr option"
  ud_add_category :: "pystr option"
  ud_add_topic :: "pystr option"
  ud_delete_class :: "pystr option"
  ud_delete_class_num :: "pystr option"
  ud_delete_subject :: "pystr option"
  ud_delete_category :: "pystr option"
  ud_delete_topics :: "pystr list option"
  ud_delete_materials_info :: "(pystr \<times> int \<times> int \<times> pystr \<times> timestamp) list option"
  ud_delete_topic :: "pystr option"
  ud_delete_material_id :: "int option"
  ud_delete_file_name :: "pystr option"
  ud_delete_file_path :: "pystr option"

text \<open>
  What the bot sends: a reply to the current chat (\<open>reply_text\<close>, with its keyboard), a
  document (\<open>reply_document\<close>: path, file name, caption), or a message to another chat
  (\<open>context.bot.send_message\<close>, with whether Telegram delivered it).  A message text is
  named by the first words of its Python template, in English, with the values the
  template interpolates.  The fixed keyboards are named by the function that builds them.
\<close>

datatype farg = S pystr | N int

datatype msg = Msg string "farg list"

datatype markup =
    NoMarkup
  | ReplyKeyboardRemove
  | main_menu bool
  | admin_panel_keyboard
  | class_selection_keyboard
  | category_selection_keyboard
  | yes_no_keyboard
  | ReplyKeyboardMarkup "pystr list list"

datatype outmsg =
    Reply msg markup
  | ReplyDocument pystr pystr msg
  | SendMessage int msg bool

text \<open>
  The world: the session of the user whose update is handled, the three tables with the
  two \<open>AUTOINCREMENT\<close> counters, the paths that exist on disk (compared as strings;
  directories are not tracked), and everything sent so far.
\<close>

record world =
  user_data :: user_data
  users :: "user_row list"
  materials :: "material list"
  requests :: "request list"
  material_seq :: int
  request_seq :: int
  files :: "pystr list"
  outbox :: "outmsg list"

text \<open>
  An update, with what the collaborators answer while it is handled: the clock of the
  database and of \<open>datetime.now()\<close> (already formatted as \<open>%Y%m%d_%H%M%S\<close>), whether
  the download of the attachment succeeds, whether \<open>reply_document\<close> succeeds, and for
  each chat whether \<open>send_message\<close> to it succeeds.  A document carries its optional file
  name and its size in bytes, a photo its size.  \<open>reply_text\<close> to the current chat is taken to succeed.
\<close>

datatype attachment = NoAttachment | Document "pystr option" nat | Photo nat

record update =
  effective_user_id :: int
  effective_username :: "pystr option"
  effective_first_name :: pystr
  message_text :: pystr
  message_attachment :: attachment
  CURRENT_TIMESTAMP :: timestamp
  now_strftime :: pystr
  download_ok :: bool
  reply_document_ok :: bool
  send_ok :: "int \<Rightarrow> bool"

text \<open>
  The conversation states of the four \<open>ConversationHandler\<close>s (bot.py 32-43) and
  \<open>ConversationHandler.END\<close>.  A handler returns the next state, or raises: then the
  library leaves the conversation where it was, and what the handler had already written
  to the session and the database stays written.
\<close>

datatype state =
    SELECT_CLASS | SELECT_SUBJECT | SELECT_CATEGORY | SELECT_TOPIC
  | REQUEST_CLASS | REQUEST_SUBJECT | REQUEST_CATEGORY | REQUEST_TOPIC | REQUEST_DESC
  | ADMIN_ADD_CLASS | ADMIN_ADD_SUBJECT | ADMIN_ADD_CATEGORY | ADMIN_ADD_TOPIC
  | ADMIN_ADD_FILE
  | ADMIN_DELETE_SELECT_CLASS | ADMIN_DELETE_SELECT_SUBJECT | ADMIN_DELETE_SELECT_CATEGORY
  | ADMIN_DELETE_SELECT_TOPIC | ADMIN_DELETE_CONFIRM
  | END

definition reply :: "msg \<Rightarrow> markup \<Rightarrow> world \<Rightarrow> world" where
  "reply m k w = w\<lparr>outbox := outbox w @ [Reply m k]\<rparr>"

definition put :: "(user_data \<Rightarrow> user_data) \<Rightarrow> world \<Rightarrow> world" where
  "put f w = w\<lparr>user_data := f (user_data w)\<rparr>"

definition truthy :: "pystr option \<Rightarrow> bool" where
  "truthy v = (case v of None \<Rightarrow> False | Some s \<Rightarrow> s \<noteq> [])"

definition session_error :: msg where
  "session_error = Msg ''Session error. Start over.'' []"

section \<open>get_user and is_admin (bot.py 98-117)\<close>

definition get_user :: "timestamp \<Rightarrow> int \<Rightarrow> world \<Rightarrow> world \<times> string" where
  "get_user now user_id w =
     (case find (\<lambda>r. telegram_id r = user_id) (users w) of
        None \<Rightarrow>
          (w\<lparr>users := users w @
               [\<lparr>telegram_id = user_id, username = None, first_name = None,
                 role = ''student'', join_date = now\<rparr>]\<rparr>,
           ''student'')
      | Some user \<Rightarrow> (w, role user))"

definition is_admin :: "env \<Rightarrow> timestamp \<Rightarrow> int \<Rightarrow> world \<Rightarrow> world \<times> bool" where
  "is_admin e now user_id w =
     (let (w', user_role) = get_user now user_id w
      in (w', user_role = ''admin'' \<or> user_id \<in> set (ADMIN_IDS e)))"

section \<open>Keyboards built from data (bot.py 183-196)\<close>

fun rows2 :: "'a list \<Rightarrow> 'a list list" where
  "rows2 (x # y # zs) = [x, y] # rows2 zs"
| "rows2 [x] = [[x]]"
| "rows2 [] = []"

fun rows3 :: "'a list \<Rightarrow> 'a list list" where
  "rows3 (x # y # z # zs) = [x, y, z] # rows3 zs"
| "rows3 [] = []"
| "rows3 xs = [xs]"

definition subject_selection_keyboard :: "env \<Rightarrow> pystr option \<Rightarrow> py_error + markup" where
  "subject_selection_keyboard e class_num =
     (case get_subjects_for_class e class_num of
        Inl err \<Rightarrow> Inl err
      | Inr subjects \<Rightarrow> Inr (ReplyKeyboardMarkup (rows2 subjects @ [[Nazad]])))"

definition topic_keyboard :: "pystr list \<Rightarrow> markup" where
  "topic_keyboard topics = ReplyKeyboardMarkup (rows3 topics @ [[Nazad_k_kategoriyam]])"

section \<open>start (bot.py 222-248)\<close>

definition start :: "env \<Rightarrow> update \<Rightarrow> world \<Rightarrow> world" where
  "start e u w =
     (let uid = effective_user_id u;
          (w1, user_role) = get_user (CURRENT_TIMESTAMP u) uid w
      in if uid \<in> set (ADMIN_IDS e) \<and> user_role \<noteq> ''admin''
         then reply (Msg ''Hello, tired student'' [S (effective_first_name u)]) (main_menu True)
                (w1\<lparr>users := map (\<lambda>r. if telegram_id r = uid then r\<lparr>role := ''admin''\<rparr> else r)
                                 (users w1)\<rparr>)
         else reply (Msg ''Hello, tired student'' [S (effective_first_name u)])
                (main_menu (user_role = ''admin'')) w1)"

section \<open>The statements on the materials table\<close>

text \<open>
  The \<open>WHERE class = ? AND subject = ? AND category = ? AND topic = ?\<close> of the
  lookups: the four text columns compared with the four parameters for equality.
\<close>

definition key_match :: "pystr \<Rightarrow> pystr \<Rightarrow> pystr \<Rightarrow> pystr \<Rightarrow> material \<Rightarrow> bool" where
  "key_match c s k t m \<longleftrightarrow>
     m_class m = c \<and> m_subject m = s \<and> m_category m = k \<and> m_topic m = t"

text \<open>
  \<open>UPDATE materials SET downloads = downloads + 1 WHERE\<close> the key matches
  (bot.py 469-477).
\<close>

definition increment_downloads ::
  "pystr \<Rightarrow> pystr \<Rightarrow> pystr \<Rightarrow> pystr \<Rightarrow> material list \<Rightarrow> material list" where
  "increment_downloads c s k t rows =
     map (\<lambda>m. if key_match c s k t m then m\<lparr>m_downloads := m_downloads m + 1\<rparr> else m) rows"

text \<open>
  \<open>SELECT ... WHERE class = ? AND subject = ? AND category = ? ORDER BY topic\<close>
  (bot.py 370-375 and 1486-1493); rows with equal topics keep their table order.
\<close>

definition select_by_category :: "pystr \<Rightarrow> pystr \<Rightarrow> pystr \<Rightarrow> material list \<Rightarrow> material list" where
  "select_by_category c s k rows =
     sort_key m_topic (filter (\<lambda>m. m_class m = c \<and> m_subject m = s \<and> m_category m = k) rows)"

text \<open>\<open>INSERT\<close> with an \<open>AUTOINCREMENT\<close> key: one more than every key used so far.\<close>

definition next_id :: "int \<Rightarrow> int list \<Rightarrow> int" where
  "next_id seq ids = fold max ids seq + 1"

section \<open>Browse flow (bot.py 251-533)\<close>

definition get_materials_start :: "update \<Rightarrow> world \<Rightarrow> world \<times> (py_error + state)" where
  "get_materials_start u w =
     (reply (Msg ''Choose your class:'' []) class_selection_keyboard w, Inr SELECT_CLASS)"

text \<open>
  The \<open>try\<close> block of \<open>select_class\<close>: the first word of the text, accepted when it is
  all digits and reads as a number from 5 to 11; any exception (no word at all, digits
  \<open>int\<close> does not read) is caught by the bare \<open>except\<close>.
\<close>

definition class_num_of :: "env \<Rightarrow> pystr \<Rightarrow> pystr option" where
  "class_num_of e text =
     (case py_split text of
        [] \<Rightarrow> None
      | class_num # _ \<Rightarrow>
          if \<not> py_isdigit e class_num then None
          else (case py_int e class_num of
                  None \<Rightarrow> None
                | Some n \<Rightarrow> if n < 5 \<or> n > 11 then None else Some class_num))"

definition select_class :: "env \<Rightarrow> update \<Rightarrow> world \<Rightarrow> world \<times> (py_error + state)" where
  "select_class e u w =
     (let text = message_text u in
      if text = Nazad then
        (let (w1, user_role) = get_user (CURRENT_TIMESTAMP u) (effective_user_id u) w
         in (reply (Msg ''Returning to the main menu...'' []) (main_menu (user_role = ''admin'')) w1,
             Inr END))
      else
        (case class_num_of e text of
           None \<Rightarrow>
             (reply (Msg ''Please choose a class from the list:'' []) class_selection_keyboard w,
              Inr SELECT_CLASS)
         | Some class_num \<Rightarrow>
             (let w1 = put (\<lambda>d. d\<lparr>ud_class := Some class_num, ud_class_text := Some text\<rparr>) w
              in case subject_selection_keyboard e (Some class_num) of
                   Inl err \<Rightarrow> (w1, Inl err)
                 | Inr kb \<Rightarrow>
                     (reply (Msg ''Class: ... Now choose a subject:'' [S text]) kb w1,
                      Inr SELECT_SUBJECT))))"

definition select_subject :: "env \<Rightarrow> update \<Rightarrow> world \<Rightarrow> world \<times> (py_error + state)" where
  "select_subject e u w =
     (let text = message_text u in
      if text = Nazad then
        (reply (Msg ''Choose a class:'' []) class_selection_keyboard w, Inr SELECT_CLASS)
      else
        (case ud_class (user_data w) of
           None \<Rightarrow> (reply session_error (main_menu False) w, Inr END)
         | Some class_num \<Rightarrow>
             (case get_subjects_for_class e (Some class_num) of
                Inl err \<Rightarrow> (w, Inl err)
              | Inr valid_subjects \<Rightarrow>
                  if text \<notin> set valid_subjects then
                    (case subject_selection_keyboard e (Some class_num) of
                       Inl err \<Rightarrow> (w, Inl err)
                     | Inr kb \<Rightarrow>
                         (reply (Msg ''Please choose a subject from the list:'' []) kb w,
                          Inr SELECT_SUBJECT))
                  else
                    (reply (Msg ''Subject: ... Choose a category of materials:'' [S text])
                       category_selection_keyboard
                       (put (\<lambda>d. d\<lparr>ud_subject := Some text\<rparr>) w),
                     Inr SELECT_CATEGORY))))"

definition select_category :: "env \<Rightarrow> update \<Rightarrow> world \<Rightarrow> world \<times> (py_error + state)" where
  "select_category e u w =
     (let text = message_text u; d = user_data w in
      if text = Nazad then
        (if truthy (ud_class d) then
           (case subject_selection_keyboard e (ud_class d) of
              Inl err \<Rightarrow> (w, Inl err)
            | Inr kb \<Rightarrow> (reply (Msg ''Choose a subject:'' []) kb w, Inr SELECT_SUBJECT))
         else (reply session_error (main_menu False) w, Inr END))
      else if ud_class d = None \<or> ud_subject d = None then
        (reply session_error (main_menu False) w, Inr END)
      else
        (let w1 = put (\<lambda>d. d\<lparr>ud_category := Some text\<rparr>) w;
             found = select_by_category (the (ud_class d)) (the (ud_subject d)) text
                       (materials w)
         in if found = [] then
              (reply (Msg ''There are no materials in category ... yet'' [S text, S (the (ud_subject d))])
                 category_selection_keyboard w1,
               Inr SELECT_CATEGORY)
            else
              (let topics = map m_topic found;
                   w2 = put (\<lambda>d. d\<lparr>ud_topics := Some topics,
                                     ud_materials_info :=
                                       Some (map (\<lambda>m. (m_topic m, m_downloads m, m_file_name m))
                                               found)\<rparr>) w1
               in (reply (Msg ''Category: ... Available materials (n): choose a topic:''
                            [S text, N (int (length topics))])
                     (topic_keyboard topics) w2,
                   Inr SELECT_TOPIC))))"

text \<open>
  Sending the file (the \<open>try\<close> of bot.py 480-518): \<open>open\<close> raises
  \<open>FileNotFoundError\<close> when the path does not exist; the caption reads
  \<open>'class_text'\<close> from the session; \<open>reply_document\<close> may fail.  Each failure is caught and
  answered with a message.  The result tells whether the document was delivered.
\<close>

definition send_file ::
  "update \<Rightarrow> pystr \<Rightarrow> pystr \<Rightarrow> int \<Rightarrow> pystr \<Rightarrow> world \<Rightarrow> world \<times> bool" where
  "send_file u file_path file_name downloads text w =
     (if file_path \<notin> set (files w) then
        (reply (Msg ''File not found on the server. Tell the administrator.'' [])
           (main_menu False) w, False)
      else if ud_class_text (user_data w) = None \<or> \<not> reply_document_ok u then
        (reply (Msg ''An error occurred while sending the file.'' []) (main_menu False) w, False)
      else
        (w\<lparr>outbox := outbox w @
             [ReplyDocument file_path file_name
                (Msg ''caption'' [S text, S (the (ud_class_text (user_data w))),
                                  S (the (ud_subject (user_data w))),
                                  S (the (ud_category (user_data w))),
                                  S file_name, N (downloads + 1)])]\<rparr>,
         True))"

definition select_topic :: "update \<Rightarrow> world \<Rightarrow> world \<times> (py_error + state)" where
  "select_topic u w =
     (let text = message_text u; d = user_data w in
      if text = Nazad_k_kategoriyam then
        (reply (Msg ''Choose a category:'' []) category_selection_keyboard w, Inr SELECT_CATEGORY)
      else if ud_class d = None \<or> ud_subject d = None \<or> ud_category d = None
              \<or> ud_topics d = None \<or> ud_materials_info d = None then
        (reply session_error (main_menu False) w, Inr END)
      else if text \<notin> set (the (ud_topics d)) then
        (reply (Msg ''Please choose a topic from the list:'' [])
           (ReplyKeyboardMarkup
              (map (\<lambda>t. [t]) (take 10 (the (ud_topics d))) @ [[Nazad_k_kategoriyam]])) w,
         Inr SELECT_TOPIC)
      else
        (let c = the (ud_class d); s = the (ud_subject d); k = the (ud_category d) in
         case filter (key_match c s k text) (materials w) of
           [] \<Rightarrow> (reply (Msg ''File not found in the database.'' []) (main_menu False) w, Inr END)
         | material # _ \<Rightarrow>
             (let w1 = w\<lparr>materials := increment_downloads c s k text (materials w)\<rparr>;
                  (w2, delivered) =
                     send_file u (m_file_path material) (m_file_name material)
                       (m_downloads material) text w1;
                  (w3, user_role) = get_user (CURRENT_TIMESTAMP u) (effective_user_id u) w2;
                  w4 = reply (Msg ''File sent successfully! What next?'' [])
                         (main_menu (user_role = ''admin'')) w3
              in (put (\<lambda>d. d\<lparr>ud_class := None, ud_subject := None, ud_category := None,
                               ud_topics := None, ud_materials_info := None\<rparr>) w4,
                  Inr END))))"

section \<open>Request flow (bot.py 536-743)\<close>

definition request_material_start :: "update \<Rightarrow> world \<Rightarrow> world \<times> (py_error + state)" where
  "request_material_start u w =
     (reply (Msg ''Request for a new material. For which class?'' []) class_selection_keyboard w,
      Inr REQUEST_CLASS)"

definition request_class :: "env \<Rightarrow> update \<Rightarrow> world \<Rightarrow> world \<times> (py_error + state)" where
  "request_class e u w =
     (let text = message_text u in
      if text = Nazad then
        (let (w1, user_role) = get_user (CURRENT_TIMESTAMP u) (effective_user_id u) w
         in (reply (Msg ''Returning to the main menu...'' []) (main_menu (user_role = ''admin'')) w1,
             Inr END))
      else
        (let w1 = put (\<lambda>d. d\<lparr>ud_req_class := Some text\<rparr>) w in
         case py_split text of
           [] \<Rightarrow> (w1, Inl IndexError)
         | class_num # _ \<Rightarrow>
             (let w2 = put (\<lambda>d. d\<lparr>ud_req_class_num := Some class_num\<rparr>) w1 in
              case subject_selection_keyboard e (Some class_num) of
                Inl err \<Rightarrow> (w2, Inl err)
              | Inr kb \<Rightarrow>
                  (reply (Msg ''Class: ... For which subject?'' [S text]) kb w2,
                   Inr REQUEST_SUBJECT))))"

definition request_subject :: "env \<Rightarrow> update \<Rightarrow> world \<Rightarrow> world \<times> (py_error + state)" where
  "request_subject e u w =
     (let text = message_text u; class_num = ud_req_class_num (user_data w) in
      if text = Nazad then
        (reply (Msg ''For which class?'' []) class_selection_keyboard w, Inr REQUEST_CLASS)
      else
        (case (if truthy class_num then get_subjects_for_class e class_num else Inr []) of
           Inl err \<Rightarrow> (w, Inl err)
         | Inr valid_subjects \<Rightarrow>
             if text \<notin> set valid_subjects then
               (case subject_selection_keyboard e class_num of
                  Inl err \<Rightarrow> (w, Inl err)
                | Inr kb \<Rightarrow>
                    (reply (Msg ''Please choose a subject from the list:'' []) kb w,
                     Inr REQUEST_SUBJECT))
             else
               (reply (Msg ''Subject: ... Which category of material?'' [S text])
                  category_selection_keyboard
                  (put (\<lambda>d. d\<lparr>ud_req_subject := Some text\<rparr>) w),
                Inr REQUEST_CATEGORY)))"

definition request_category :: "env \<Rightarrow> update \<Rightarrow> world \<Rightarrow> world \<times> (py_error + state)" where
  "request_category e u w =
     (let text = message_text u; class_num = ud_req_class_num (user_data w) in
      if text = Nazad then
        (if truthy class_num then
           (case subject_selection_keyboard e class_num of
              Inl err \<Rightarrow> (w, Inl err)
            | Inr kb \<Rightarrow> (reply (Msg ''For which subject?'' []) kb w, Inr REQUEST_SUBJECT))
         else (reply session_error (main_menu False) w, Inr END))
      else
        (reply (Msg ''Category: ... Write the name of the topic'' [S text]) ReplyKeyboardRemove
           (put (\<lambda>d. d\<lparr>ud_req_category := Some text\<rparr>) w),
         Inr REQUEST_TOPIC))"

definition request_topic :: "update \<Rightarrow> world \<Rightarrow> world \<times> (py_error + state)" where
  "request_topic u w =
     (let text = message_text u in
      if length text < 3 then
        (reply (Msg ''The name is too short. Enter a detailed topic name:'' []) NoMarkup w,
         Inr REQUEST_TOPIC)
      else
        (reply (Msg ''Topic: ... Add a description or press Skip'' [S text])
           (ReplyKeyboardMarkup [[Propustit_opisanie], [Nazad_k_kategorii]])
           (put (\<lambda>d. d\<lparr>ud_req_topic := Some text\<rparr>) w),
         Inr REQUEST_DESC))"

text \<open>
  The notification loop over \<open>ADMIN_IDS\<close> (bot.py 726-736): each send is tried on its
  own, and a failure is printed and skipped.
\<close>

definition notify_admins :: "env \<Rightarrow> update \<Rightarrow> msg \<Rightarrow> world \<Rightarrow> world" where
  "notify_admins e u m w =
     w\<lparr>outbox := outbox w @ map (\<lambda>admin_id. SendMessage admin_id m (send_ok u admin_id))
                                (ADMIN_IDS e)\<rparr>"

definition clear_req :: "user_data \<Rightarrow> user_data" where
  "clear_req d = d\<lparr>ud_req_class := None, ud_req_class_num := None, ud_req_subject := None,
                   ud_req_category := None, ud_req_topic := None\<rparr>"

definition request_description :: "env \<Rightarrow> update \<Rightarrow> world \<Rightarrow> world \<times> (py_error + state)" where
  "request_description e u w =
     (let text = message_text u; d = user_data w in
      if text = Nazad_k_kategorii then
        (reply (Msg ''Choose a category:'' []) category_selection_keyboard w, Inr REQUEST_CATEGORY)
      else
        (let description = (if text = Propustit_opisanie then None else Some text) in
         if ud_req_class_num d = None \<or> ud_req_subject d = None \<or> ud_req_category d = None
            \<or> ud_req_topic d = None then (w, Inl KeyError)
         else
           (let request_id = next_id (request_seq w) (map r_id (requests w));
                w1 = w\<lparr>requests := requests w @
                         [\<lparr>r_id = request_id, r_user_id = effective_user_id u,
                           r_class = the (ud_req_class_num d),
                           r_subject = the (ud_req_subject d),
                           r_category = the (ud_req_category d),
                           r_topic = the (ud_req_topic d),
                           r_description = description, r_status = ''pending'',
                           r_created_at = CURRENT_TIMESTAMP u, r_completed_at = None\<rparr>],
                       request_seq := request_id\<rparr>
            in case ud_req_class d of
                 None \<Rightarrow> (w1, Inl KeyError)
               | Some req_class \<Rightarrow>
                   (let details = [N request_id, S req_class, S (the (ud_req_subject d)),
                                   S (the (ud_req_category d)), S (the (ud_req_topic d))]
                                  @ (case description of None \<Rightarrow> [] | Some t \<Rightarrow>
                                       if t = [] then [] else [S t]);
                        (w2, adm) = is_admin e (CURRENT_TIMESTAMP u) (effective_user_id u) w1;
                        w3 = reply (Msg ''Request sent successfully!'' details) (main_menu adm) w2;
                        w4 = notify_admins e u
                               (Msg ''New material request!''
                                  (N (effective_user_id u) # details)) w3
                    in (put clear_req w4, Inr END)))))"

section \<open>Admin panel and statistics (bot.py 746-775, 1036-1095)\<close>

definition admin_panel :: "env \<Rightarrow> update \<Rightarrow> world \<Rightarrow> world" where
  "admin_panel e u w =
     (let (w1, adm) = is_admin e (CURRENT_TIMESTAMP u) (effective_user_id u) w in
      if \<not> adm then reply (Msg ''You have no access rights.'' []) NoMarkup w1
      else reply (Msg ''Administrator panel''
                    [N (int (length (filter (\<lambda>r. r_status r = ''pending'') (requests w1)))),
                     N (int (length (materials w1)))])
             admin_panel_keyboard w1)"

definition admin_statistics :: "env \<Rightarrow> update \<Rightarrow> world \<Rightarrow> world" where
  "admin_statistics e u w =
     (let (w1, adm) = is_admin e (CURRENT_TIMESTAMP u) (effective_user_id u) w in
      if \<not> adm then reply (Msg ''You have no access rights.'' []) NoMarkup w1
      else reply (Msg ''Bot statistics''
                    [N (int (length (users w1))),
                     N (int (length (materials w1))),
                     N (sum_list (map m_downloads (materials w1))),
                     N (int (length (filter (\<lambda>r. r_status r = ''pending'') (requests w1)))),
                     N (int (length (filter (\<lambda>r. r_status r = ''completed'') (requests w1))))])
             admin_panel_keyboard w1)"

section \<open>AdminAdd flow (bot.py 777-1034)\<close>

definition admin_add_material_start ::
  "env \<Rightarrow> update \<Rightarrow> world \<Rightarrow> world \<times> (py_error + state)" where
  "admin_add_material_start e u w =
     (let (w1, adm) = is_admin e (CURRENT_TIMESTAMP u) (effective_user_id u) w in
      if \<not> adm then (reply (Msg ''You have no access rights.'' []) NoMarkup w1, Inr END)
      else (reply (Msg ''Adding a new material. For which class?'' []) class_selection_keyboard w1,
            Inr ADMIN_ADD_CLASS))"

definition admin_add_class :: "env \<Rightarrow> update \<Rightarrow> world \<Rightarrow> world \<times> (py_error + state)" where
  "admin_add_class e u w =
     (let text = message_text u in
      if text = Nazad then (admin_panel e u w, Inr END)
      else
        (let w1 = put (\<lambda>d. d\<lparr>ud_add_class := Some text\<rparr>) w in
         case py_split text of
           [] \<Rightarrow> (w1, Inl IndexError)
         | class_num # _ \<Rightarrow>
             (let w2 = put (\<lambda>d. d\<lparr>ud_add_class_num := Some class_num\<rparr>) w1 in
              case subject_selection_keyboard e (Some class_num) of
                Inl err \<Rightarrow> (w2, Inl err)
              | Inr kb \<Rightarrow>
                  (reply (Msg ''Class: ... For which subject?'' [S text]) kb w2,
                   Inr ADMIN_ADD_SUBJECT))))"

definition admin_add_subject :: "env \<Rightarrow> update \<Rightarrow> world \<Rightarrow> world \<times> (py_error + state)" where
  "admin_add_subject e u w =
     (let text = message_text u; class_num = ud_add_class_num (user_data w) in
      if text = Nazad then
        (reply (Msg ''For which class?'' []) class_selection_keyboard w, Inr ADMIN_ADD_CLASS)
      else
        (case (if truthy class_num then get_subjects_for_class e class_num else Inr []) of
           Inl err \<Rightarrow> (w, Inl err)
         | Inr valid_subjects \<Rightarrow>
             if text \<notin> set valid_subjects then
               (case subject_selection_keyboard e class_num of
                  Inl err \<Rightarrow> (w, Inl err)
                | Inr kb \<Rightarrow>
                    (reply (Msg ''Please choose a subject from the list:'' []) kb w,
                     Inr ADMIN_ADD_SUBJECT))
             else
               (reply (Msg ''Subject: ... Choose a category of the material:'' [S text])
                  category_selection_keyboard
                  (put (\<lambda>d. d\<lparr>ud_add_subject := Some text\<rparr>) w),
                Inr ADMIN_ADD_CATEGORY)))"

definition admin_add_category :: "env \<Rightarrow> update \<Rightarrow> world \<Rightarrow> world \<times> (py_error + state)" where
  "admin_add_category e u w =
     (let text = message_text u in
      if text = Nazad then
        (case ud_add_class_num (user_data w) of
           None \<Rightarrow> (w, Inl KeyError)
         | Some class_num \<Rightarrow>
             (case subject_selection_keyboard e (Some class_num) of
                Inl err \<Rightarrow> (w, Inl err)
              | Inr kb \<Rightarrow> (reply (Msg ''For which subject?'' []) kb w, Inr ADMIN_ADD_SUBJECT)))
      else
        (reply (Msg ''Category: ... Enter the topic name of the material:'' [S text])
           ReplyKeyboardRemove
           (put (\<lambda>d. d\<lparr>ud_add_category := Some text\<rparr>) w),
         Inr ADMIN_ADD_TOPIC))"

definition admin_add_topic :: "update \<Rightarrow> world \<Rightarrow> world \<times> (py_error + state)" where
  "admin_add_topic u w =
     (let text = message_text u in
      if length text < 2 then
        (reply (Msg ''The name is too short. Enter the full topic name:'' []) NoMarkup w,
         Inr ADMIN_ADD_TOPIC)
      else
        (reply (Msg ''Topic: ... Now send the file with the material.'' [S text]) NoMarkup
           (put (\<lambda>d. d\<lparr>ud_add_topic := Some text\<rparr>) w),
         Inr ADMIN_ADD_FILE))"

text \<open>
  The loop of bot.py 924-933 that looks for a free name in the destination directory:
  while the path exists, the next candidate is the base name, an underscore, the counter
  and the extension.
\<close>

function unique_name ::
  "pystr list \<Rightarrow> pystr \<Rightarrow> pystr \<Rightarrow> pystr \<Rightarrow> nat \<Rightarrow> pystr \<Rightarrow> pystr" where
  "unique_name fs save_dir base_name ext counter final_name =
     (if os_path_join save_dir [final_name] \<in> set fs
      then unique_name fs save_dir base_name ext (counter + 1)
             (base_name @ [95] @ py_str counter @ ext)
      else final_name)"
  by pat_completeness auto

text \<open>
  The requests a new material answers (bot.py 981-990): the pending rows whose four
  columns equal the four values of the upload, in table order.  The loop of bot.py
  992-1011 then marks each by its id and tries to notify its author; a failed send is
  logged and the loop goes on.
\<close>

definition pending_matching ::
  "pystr \<Rightarrow> pystr \<Rightarrow> pystr \<Rightarrow> pystr \<Rightarrow> request list \<Rightarrow> request list" where
  "pending_matching c s k t rows =
     filter (\<lambda>r. r_class r = c \<and> r_subject r = s \<and> r_category r = k \<and> r_topic r = t
                 \<and> r_status r = ''pending'') rows"

definition complete_request :: "timestamp \<Rightarrow> int \<Rightarrow> request list \<Rightarrow> request list" where
  "complete_request now req_id rows =
     map (\<lambda>r. if r_id r = req_id
               then r\<lparr>r_status := ''completed'', r_completed_at := Some now\<rparr> else r) rows"

definition complete_and_notify ::
  "update \<Rightarrow> farg list \<Rightarrow> int \<times> int \<Rightarrow> world \<Rightarrow> world" where
  "complete_and_notify u details p w =
     (case p of (req_id, user_id) \<Rightarrow>
        w\<lparr>requests := complete_request (CURRENT_TIMESTAMP u) req_id (requests w),
          outbox := outbox w @
            [SendMessage user_id (Msg ''Your request is fulfilled!'' (N req_id # details))
               (send_ok u user_id)]\<rparr>)"

definition clear_add :: "user_data \<Rightarrow> user_data" where
  "clear_add d = d\<lparr>ud_add_class := None, ud_add_class_num := None, ud_add_subject := None,
                   ud_add_category := None, ud_add_topic := None\<rparr>"

text \<open>
  The \<open>try\<close> block of \<open>admin_add_file\<close> (bot.py 900-1025), entered with the four
  session values present.  It raises before it has changed anything when the document
  has no file name (\<open>os.path.join\<close> of \<open>None\<close>) or when the download fails.
\<close>

definition temp_path_of :: "pystr \<Rightarrow> pystr" where
  "temp_path_of file_name = os_path_join (asc ''temp'') [file_name]"

definition save_dir_of :: "pystr \<Rightarrow> pystr \<Rightarrow> pystr \<Rightarrow> pystr" where
  "save_dir_of class_num subject category =
     os_path_join (asc ''data'') [class_num @ asc ''_class'', subject, category]"

text \<open>
  The name of the uploaded file (bot.py 901-907): the document's own, which Telegram may
  leave out, or for a photo one made from the time of day.
\<close>

definition upload_name :: "update \<Rightarrow> pystr option" where
  "upload_name u =
     (case message_attachment u of
        Document name n \<Rightarrow> name
      | Photo n \<Rightarrow> Some (asc ''photo_'' @ now_strftime u @ asc ''.jpg'')
      | NoAttachment \<Rightarrow> None)"

definition add_material ::
  "update \<Rightarrow> pystr \<Rightarrow> pystr \<Rightarrow> pystr \<Rightarrow> pystr \<Rightarrow> world \<Rightarrow> py_error + world" where
  "add_material u class_num subject category topic w =
     (case upload_name u of
        None \<Rightarrow> Inl TypeError
      | Some file_name \<Rightarrow>
          if \<not> download_ok u then Inl OSError
          else
            (let temp_path = temp_path_of file_name;
                 fs1 = temp_path # files w;
                 file_size = (case message_attachment u of
                                Document name n \<Rightarrow> n | Photo n \<Rightarrow> n | NoAttachment \<Rightarrow> 0);
                 save_dir = save_dir_of class_num subject category;
                 (base_name, ext) = splitext file_name;
                 final_name = unique_name fs1 save_dir base_name ext 1 file_name;
                 final_path = os_path_join save_dir [final_name];
                 fs2 = final_path # removeAll temp_path fs1;
                 material_id = next_id (material_seq w) (map m_id (materials w));
                 w1 = w\<lparr>files := fs2,
                        materials := materials w @
                          [\<lparr>m_id = material_id, m_class = class_num, m_subject = subject,
                            m_category = category, m_topic = topic, m_file_path = final_path,
                            m_file_name = final_name, m_file_size = file_size,
                            m_upload_date = CURRENT_TIMESTAMP u, m_downloads = 0,
                            m_uploaded_by = effective_user_id u\<rparr>],
                        material_seq := material_id\<rparr>;
                 w2 = reply (Msg ''Material added successfully!''
                               [N material_id, S class_num, S subject, S category, S topic,
                                S final_name, N (int (file_size div 1024))])
                        admin_panel_keyboard w1;
                 completed_requests =
                   map (\<lambda>r. (r_id r, r_user_id r))
                     (pending_matching class_num subject category topic (requests w2));
                 w3 = fold (complete_and_notify u [S topic, S class_num, S subject, S category])
                        completed_requests w2;
                 w4 = (if completed_requests \<noteq> []
                       then reply (Msg ''Automatically fulfilled n requests for this material.''
                                     [N (int (length completed_requests))])
                              admin_panel_keyboard w3
                       else w3)
             in Inr (put clear_add w4)))"

definition admin_add_file :: "update \<Rightarrow> world \<Rightarrow> world \<times> (py_error + state)" where
  "admin_add_file u w =
     (let d = user_data w in
      if message_attachment u = NoAttachment then
        (reply (Msg ''Please send a file (a document or an image).'' []) NoMarkup w,
         Inr ADMIN_ADD_FILE)
      else if ud_add_class_num d = None \<or> ud_add_subject d = None \<or> ud_add_category d = None
              \<or> ud_add_topic d = None then
        (reply session_error admin_panel_keyboard w, Inr END)
      else
        (case add_material u (the (ud_add_class_num d)) (the (ud_add_subject d))
                (the (ud_add_category d)) (the (ud_add_topic d)) w of
           Inl err \<Rightarrow> (reply (Msg ''An error occurred: ...'' []) admin_panel_keyboard w, Inr END)
         | Inr w' \<Rightarrow> (w', Inr END)))"

section \<open>AdminDelete flow (bot.py 1407-1684)\<close>

definition admin_delete_material_start ::
  "env \<Rightarrow> update \<Rightarrow> world \<Rightarrow> world \<times> (py_error + state)" where
  "admin_delete_material_start e u w =
     (let (w1, adm) = is_admin e (CURRENT_TIMESTAMP u) (effective_user_id u) w in
      if \<not> adm then (reply (Msg ''You have no access rights.'' []) NoMarkup w1, Inr END)
      else (reply (Msg ''Deleting a material. For which class?'' []) class_selection_keyboard w1,
            Inr ADMIN_DELETE_SELECT_CLASS))"

definition admin_delete_select_class ::
  "env \<Rightarrow> update \<Rightarrow> world \<Rightarrow> world \<times> (py_error + state)" where
  "admin_delete_select_class e u w =
     (let text = message_text u in
      if text = Nazad then (admin_panel e u w, Inr END)
      else
        (let w1 = put (\<lambda>d. d\<lparr>ud_delete_class := Some text\<rparr>) w in
         case py_split text of
           [] \<Rightarrow> (w1, Inl IndexError)
         | class_num # _ \<Rightarrow>
             (let w2 = put (\<lambda>d. d\<lparr>ud_delete_class_num := Some class_num\<rparr>) w1 in
              case subject_selection_keyboard e (Some class_num) of
                Inl err \<Rightarrow> (w2, Inl err)
              | Inr kb \<Rightarrow>
                  (reply (Msg ''Class: ... For which subject to delete a material?'' [S text]) kb w2,
                   Inr ADMIN_DELETE_SELECT_SUBJECT))))"

definition admin_delete_select_subject ::
  "env \<Rightarrow> update \<Rightarrow> world \<Rightarrow> world \<times> (py_error + state)" where
  "admin_delete_select_subject e u w =
     (let text = message_text u; class_num = ud_delete_class_num (user_data w) in
      if text = Nazad then
        (reply (Msg ''For which class?'' []) class_selection_keyboard w,
         Inr ADMIN_DELETE_SELECT_CLASS)
      else
        (case (if truthy class_num then get_subjects_for_class e class_num else Inr []) of
           Inl err \<Rightarrow> (w, Inl err)
         | Inr valid_subjects \<Rightarrow>
             if text \<notin> set valid_subjects then
               (case subject_selection_keyboard e class_num of
                  Inl err \<Rightarrow> (w, Inl err)
                | Inr kb \<Rightarrow>
                    (reply (Msg ''Please choose a subject from the list:'' []) kb w,
                     Inr ADMIN_DELETE_SELECT_SUBJECT))
             else
               (reply (Msg ''Subject: ... Choose a category of the material to delete:'' [S text])
                  category_selection_keyboard
                  (put (\<lambda>d. d\<lparr>ud_delete_subject := Some text\<rparr>) w),
                Inr ADMIN_DELETE_SELECT_CATEGORY)))"

definition admin_delete_select_category ::
  "env \<Rightarrow> update \<Rightarrow> world \<Rightarrow> world \<times> (py_error + state)" where
  "admin_delete_select_category e u w =
     (let text = message_text u in
      if text = Nazad then
        (case ud_delete_class_num (user_data w) of
           None \<Rightarrow> (w, Inl KeyError)
         | Some class_num \<Rightarrow>
             (case subject_selection_keyboard e (Some class_num) of
                Inl err \<Rightarrow> (w, Inl err)
              | Inr kb \<Rightarrow>
                  (reply (Msg ''For which subject?'' []) kb w, Inr ADMIN_DELETE_SELECT_SUBJECT)))
      else
        (let w1 = put (\<lambda>d. d\<lparr>ud_delete_category := Some text\<rparr>) w; d = user_data w in
         if ud_delete_class_num d = None \<or> ud_delete_subject d = None then (w1, Inl KeyError)
         else
           (let found = select_by_category (the (ud_delete_class_num d))
                          (the (ud_delete_subject d)) text (materials w)
            in if found = [] then
                 (reply (Msg ''There are no materials to delete in category ...''
                           [S text, S (the (ud_delete_subject d))])
                    admin_panel_keyboard w1,
                  Inr END)
               else
                 (let topics = map m_topic found;
                      w2 = put (\<lambda>d. d\<lparr>ud_delete_topics := Some topics,
                                        ud_delete_materials_info :=
                                          Some (map (\<lambda>m. (m_topic m, m_id m, m_downloads m,
                                                           m_file_name m, m_upload_date m))
                                                  found)\<rparr>) w1
                  in (reply (Msg ''Category: ... Materials available for deletion (n): choose a topic:''
                               [S text, N (int (length topics))])
                        (topic_keyboard topics) w2,
                      Inr ADMIN_DELETE_SELECT_TOPIC)))))"

definition admin_delete_select_topic :: "update \<Rightarrow> world \<Rightarrow> world \<times> (py_error + state)" where
  "admin_delete_select_topic u w =
     (let text = message_text u in
      if text = Nazad_k_kategoriyam then
        (reply (Msg ''Choose a category:'' []) category_selection_keyboard w,
         Inr ADMIN_DELETE_SELECT_CATEGORY)
      else
        (let w1 = put (\<lambda>d. d\<lparr>ud_delete_topic := Some text\<rparr>) w in
         case ud_delete_materials_info (user_data w1) of
           None \<Rightarrow> (w1, Inl KeyError)
         | Some info \<Rightarrow>
             (case map_of (rev info) text of
                None \<Rightarrow> (w1, Inl KeyError)
              | Some (material_id, downloads, file_name, upload_date) \<Rightarrow>
                  (let w2 = put (\<lambda>d. d\<lparr>ud_delete_material_id := Some material_id,
                                        ud_delete_file_name := Some file_name\<rparr>) w1
                   in case find (\<lambda>m. m_id m = material_id) (materials w2) of
                        None \<Rightarrow>
                          (reply (Msg ''File not found in the database.'' []) admin_panel_keyboard w2,
                           Inr END)
                      | Some row \<Rightarrow>
                          (let w3 = put (\<lambda>d. d\<lparr>ud_delete_file_path := Some (m_file_path row)\<rparr>) w2;
                               d = user_data w3
                           in if ud_delete_class_num d = None \<or> ud_delete_subject d = None
                                 \<or> ud_delete_category d = None then (w3, Inl KeyError)
                              else
                                (reply (Msg ''WARNING: you are about to delete the material ...''
                                          [N material_id, S (the (ud_delete_class_num d)),
                                           S (the (ud_delete_subject d)),
                                           S (the (ud_delete_category d)), S text, S file_name,
                                           S upload_date, N downloads])
                                   yes_no_keyboard w3,
                                 Inr ADMIN_DELETE_CONFIRM))))))"

definition clear_delete :: "user_data \<Rightarrow> user_data" where
  "clear_delete d =
     d\<lparr>ud_delete_class := None, ud_delete_class_num := None, ud_delete_subject := None,
       ud_delete_category := None, ud_delete_topics := None,
       ud_delete_materials_info := None, ud_delete_topic := None,
       ud_delete_material_id := None, ud_delete_file_name := None,
       ud_delete_file_path := None\<rparr>"

text \<open>
  The \<open>try\<close> block of the confirmation (bot.py 1622-1670): \<open>os.path.exists(None)\<close>
  raises \<open>TypeError\<close> when the path is not in the session; \<open>DELETE ... WHERE id = ?\<close>
  with \<open>None\<close> for the id removes no row.
\<close>

definition delete_material :: "world \<Rightarrow> py_error + world" where
  "delete_material w =
     (let d = user_data w in
      case ud_delete_file_path d of
        None \<Rightarrow> Inl TypeError
      | Some file_path \<Rightarrow>
          (let file_deleted = (file_path \<in> set (files w));
               w1 = w\<lparr>files := removeAll file_path (files w),
                      materials := (case ud_delete_material_id d of
                                      None \<Rightarrow> materials w
                                    | Some material_id \<Rightarrow>
                                        filter (\<lambda>m. m_id m \<noteq> material_id) (materials w))\<rparr>
           in Inr (reply (Msg ''Material deleted successfully!''
                            ((case ud_delete_material_id d of None \<Rightarrow> [] | Some i \<Rightarrow> [N i])
                             @ map S (concat (map (\<lambda>f. case f d of None \<Rightarrow> [] | Some v \<Rightarrow> [v])
                                    [ud_delete_class_num, ud_delete_subject,
                                     ud_delete_category, ud_delete_topic]))
                             @ [S (if file_deleted then asc ''Da'' else asc ''Net'')]))
                     admin_panel_keyboard w1)))"

definition admin_delete_confirm :: "update \<Rightarrow> world \<Rightarrow> world \<times> (py_error + state)" where
  "admin_delete_confirm u w =
     (let text = message_text u in
      if text = Nazad then
        (reply (Msg ''Choose a topic to delete:'' [])
           (topic_keyboard (case ud_delete_topics (user_data w) of None \<Rightarrow> [] | Some ts \<Rightarrow> ts)) w,
         Inr ADMIN_DELETE_SELECT_TOPIC)
      else if text = Net_otmenit then
        (reply (Msg ''Deletion cancelled.'' []) admin_panel_keyboard w, Inr END)
      else if text = Da_udalit then
        (case delete_material w of
           Inl err \<Rightarrow>
             (put clear_delete
                (reply (Msg ''Error while deleting the material: ...'' []) admin_panel_keyboard w),
              Inr END)
         | Inr w' \<Rightarrow> (put clear_delete w', Inr END))
      else
        (reply (Msg ''Please choose an option from the keyboard:'' []) yes_no_keyboard w,
         Inr ADMIN_DELETE_CONFIRM))"

section \<open>The handlers of the application (main, bot.py 1696-1816)\<close>

text \<open>
  The handlers that \<open>main\<close> registers for the four conversations, their entry points,
  \<open>/start\<close>, the admin panel and the statistics; \<open>state_handler\<close> is the \<open>states\<close> table
  of each \<open>ConversationHandler\<close>.  Functions that return nothing leave the conversation
  where it is, which \<open>run\<close> reports as \<open>None\<close>.
\<close>

datatype handler =
    H_start | H_admin_panel | H_admin_statistics
  | H_get_materials_start | H_select_class | H_select_subject | H_select_category
  | H_select_topic
  | H_request_material_start | H_request_class | H_request_subject | H_request_category
  | H_request_topic | H_request_description
  | H_admin_add_material_start | H_admin_add_class | H_admin_add_subject
  | H_admin_add_category | H_admin_add_topic | H_admin_add_file
  | H_admin_delete_material_start | H_admin_delete_select_class
  | H_admin_delete_select_subject | H_admin_delete_select_category
  | H_admin_delete_select_topic | H_admin_delete_confirm

definition returning :: "world \<times> (py_error + state) \<Rightarrow> world \<times> (py_error + state option)" where
  "returning r = (fst r, map_sum id Some (snd r))"

fun run :: "env \<Rightarrow> handler \<Rightarrow> update \<Rightarrow> world \<Rightarrow> world \<times> (py_error + state option)" where
  "run e H_start u w = (start e u w, Inr None)"
| "run e H_admin_panel u w = (admin_panel e u w, Inr None)"
| "run e H_admin_statistics u w = (admin_statistics e u w, Inr None)"
| "run e H_get_materials_start u w = returning (get_materials_start u w)"
| "run e H_select_class u w = returning (select_class e u w)"
| "run e H_select_subject u w = returning (select_subject e u w)"
| "run e H_select_category u w = returning (select_category e u w)"
| "run e H_select_topic u w = returning (select_topic u w)"
| "run e H_request_material_start u w = returning (request_material_start u w)"
| "run e H_request_class u w = returning (request_class e u w)"
| "run e H_request_subject u w = returning (request_subject e u w)"
| "run e H_request_category u w = returning (request_category e u w)"
| "run e H_request_topic u w = returning (request_topic u w)"
| "run e H_request_description u w = returning (request_description e u w)"
| "run e H_admin_add_material_start u w = returning (admin_add_material_start e u w)"
| "run e H_admin_add_class u w = returning (admin_add_class e u w)"
| "run e H_admin_add_subject u w = returning (admin_add_subject e u w)"
| "run e H_admin_add_category u w = returning (admin_add_category e u w)"
| "run e H_admin_add_topic u w = returning (admin_add_topic u w)"
| "run e H_admin_add_file u w = returning (admin_add_file u w)"
| "run e H_admin_delete_material_start u w = returning (admin_delete_material_start e u w)"
| "run e H_admin_delete_select_class u w = returning (admin_delete_select_class e u w)"
| "run e H_admin_delete_select_subject u w = returning (admin_delete_select_subject e u w)"
| "run e H_admin_delete_select_category u w = returning (admin_delete_select_category e u w)"
| "run e H_admin_delete_select_topic u w = returning (admin_delete_select_topic u w)"
| "run e H_admin_delete_confirm u w = returning (admin_delete_confirm u w)"


section \<open>Notions used in the proofs\<close>

text \<open>
  The value of a string of decimal digits, the candidate names the search tries, and the
  counters from \<open>c\<close> on whose candidate path exists.
\<close>

definition digits_value :: "pystr \<Rightarrow> nat" where
  "digits_value s = foldl (\<lambda>a c. 10 * a + (c - 48)) 0 s"

definition candidate :: "pystr \<Rightarrow> pystr \<Rightarrow> nat \<Rightarrow> pystr" where
  "candidate base_name ext n = base_name @ [95] @ py_str n @ ext"

definition taken :: "pystr list \<Rightarrow> pystr \<Rightarrow> pystr \<Rightarrow> pystr \<Rightarrow> nat \<Rightarrow> nat set" where
  "taken fs d b x c = {n. c \<le> n \<and> os_path_join d [candidate b x n] \<in> set fs}"


section \<open>An environment for worked examples\<close>

text \<open>
  One administrator (1001), and \<open>int\<close> and \<open>isdigit\<close> on strings of ASCII digits, where
  they are plain decimal reading; other strings are rejected here.
\<close>

definition ascii_digits :: "pystr \<Rightarrow> bool" where
  "ascii_digits s \<longleftrightarrow> s \<noteq> [] \<and> list_all (\<lambda>c. 48 \<le> c \<and> c \<le> 57) s"

definition ascii_int :: "pystr \<Rightarrow> int option" where
  "ascii_int s = (if ascii_digits s then Some (int (digits_value s)) else None)"

definition env0 :: env where
  "env0 = \<lparr>ADMIN_IDS = [1001], py_int = ascii_int, py_isdigit = ascii_digits\<rparr>"

text \<open>
  An empty session, an empty world (no rows, no files, nothing sent), and a text update
  from user 7 at which every collaborator answers.
\<close>

definition no_user_data :: user_data where
  "no_user_data =
     \<lparr>ud_class = None, ud_class_text = None, ud_subject = None, ud_category = None,
      ud_topics = None, ud_materials_info = None, ud_req_class = None,
      ud_req_class_num = None, ud_req_subject = None, ud_req_category = None,
      ud_req_topic = None, ud_add_class = None, ud_add_class_num = None,
      ud_add_subject = None, ud_add_category = None, ud_add_topic = None,
      ud_delete_class = None, ud_delete_class_num = None, ud_delete_subject = None,
      ud_delete_category = None, ud_delete_topics = None, ud_delete_materials_info = None,
      ud_delete_topic = None, ud_delete_material_id = None, ud_delete_file_name = None,
      ud_delete_file_path = None\<rparr>"

definition world0 :: world where
  "world0 = \<lparr>user_data = no_user_data, users = [], materials = [], requests = [],
              material_seq = 0, request_seq = 0, files = [], outbox = []\<rparr>"

definition update0 :: "int \<Rightarrow> pystr \<Rightarrow> update" where
  "update0 uid txt =
     \<lparr>effective_user_id = uid, effective_username = None, effective_first_name = asc ''Ira'',
      message_text = txt, message_attachment = NoAttachment,
      CURRENT_TIMESTAMP = asc ''2026-01-15 10:00:00'', now_strftime = asc ''20260115_100000'',
      download_ok = True, reply_document_ok = True, send_ok = (\<lambda>chat. True)\<rparr>"

text \<open>A material row with a given key and counter, for the examples.\<close>

definition material0 :: "int \<Rightarrow> pystr \<Rightarrow> pystr \<Rightarrow> pystr \<Rightarrow> pystr \<Rightarrow> int \<Rightarrow> material" where
  "material0 i c s k t n =
     \<lparr>m_id = i, m_class = c, m_subject = s, m_category = k, m_topic = t,
      m_file_path = asc ''data/f'', m_file_name = asc ''f'', m_file_size = 1,
      m_upload_date = asc ''2026-01-01 00:00:00'', m_downloads = n, m_uploaded_by = 1001\<rparr>"


definition Konspekty :: pystr where
  "Konspekty = [1050, 1086, 1085, 1089, 1087, 1077, 1082, 1090, 1099]"


text \<open>
  The scenario of an upload for grade 9, Physics, notes, topic "Zakony Nyutona" (Newton's
  laws) while requests are waiting: a request row, and the session of the administrator
  at the file step.
\<close>

definition Zakony_Nyutona :: pystr where
  "Zakony_Nyutona =
     [1047, 1072, 1082, 1086, 1085, 1099, 32, 1053, 1100, 1102, 1090, 1086, 1085, 1072]"



section \<open>The back branches of the handlers, as a table\<close>






text \<open>
  A Browse session at the topic step for grade 7, Physics, notes, with one material on
  offer whose file is not on disk.
\<close>

definition topic_world :: world where
  "topic_world =
     world0\<lparr>user_data := no_user_data\<lparr>ud_class := Some [55],
                                       ud_class_text := Some ([55] @ [32, 1082, 1083, 1072, 1089, 1089]),
                                       ud_subject := Some Fizika,
                                       ud_category := Some Konspekty,
                                       ud_topics := Some [Zakony_Nyutona],
                                       ud_materials_info := Some [(Zakony_Nyutona, 0, asc ''f'')]\<rparr>,
            materials := [material0 1 [55] Fizika Konspekty Zakony_Nyutona 0]\<rparr>"

text \<open>
  An AdminDelete session at the topic step for the same key, with the one material
  listed for deletion; and two texts that no class button carries: a word, and
  \<open>3\<close> followed by the word of the class buttons.
\<close>

definition delete_world :: world where
  "delete_world =
     world0\<lparr>user_data := no_user_data\<lparr>ud_delete_class := Some ([55] @ [32, 1082, 1083, 1072, 1089, 1089]),
                                       ud_delete_class_num := Some [55],
                                       ud_delete_subject := Some Fizika,
                                       ud_delete_category := Some Konspekty,
                                       ud_delete_topics := Some [Zakony_Nyutona],
                                       ud_delete_materials_info :=
                                         Some [(Zakony_Nyutona, 1, 0, asc ''f'',
                                                asc ''2026-01-01 00:00:00'')]\<rparr>,
            materials := [material0 1 [55] Fizika Konspekty Zakony_Nyutona 0]\<rparr>"

definition a_word :: pystr where
  "a_word = [97, 98, 99]"

definition grade_3 :: pystr where
  "grade_3 = [51, 32, 1082, 1083, 1072, 1089, 1089]"

section \<open>Termination of the search for a free file name\<close>

declare py_str.simps [simp del]

lemma digits_value_py_str: "digits_value (py_str n) = n"
proof (induction n rule: py_str.induct)
  case (1 n)
  show ?case
  proof (cases "n < 10")
    case True
    then show ?thesis by (simp add: py_str.simps [of n] digits_value_def)
  next
    case False
    with 1 have "digits_value (py_str (n div 10)) = n div 10" by simp
    with False show ?thesis
      by (simp add: py_str.simps [of n] digits_value_def)
  qed
qed

lemma py_str_inject: "py_str m = py_str n \<Longrightarrow> m = n"
  by (metis digits_value_py_str)

text \<open>
  Candidates differ for different counters, and the path joined from a directory and a
  candidate ends with the candidate after a prefix that does not depend on the counter.
\<close>

lemma candidate_inject: "candidate b x m = candidate b x n \<Longrightarrow> m = n"
  by (simp add: candidate_def py_str_inject)

lemma candidate_not_Nil: "candidate b x n \<noteq> []"
  by (simp add: candidate_def)

lemma hd_candidate: "hd (candidate b x n) = (if b = [] then 95 else hd b)"
  by (simp add: candidate_def)

lemma join_candidate:
  "\<exists>pre. \<forall>n. os_path_join d [candidate b x n] = pre @ candidate b x n"
proof -
  have "\<forall>n. os_path_join d [candidate b x n] =
          (if (if b = [] then 95 else hd b) = 47 then []
           else if d = [] \<or> last d = 47 then d else d @ [47]) @ candidate b x n"
    by (simp add: os_path_join_def join2_def candidate_not_Nil hd_candidate)
  then show ?thesis by blast
qed

lemma join_candidate_inject:
  "os_path_join d [candidate b x m] = os_path_join d [candidate b x n] \<Longrightarrow> m = n"
proof -
  assume a: "os_path_join d [candidate b x m] = os_path_join d [candidate b x n]"
  obtain pre where p: "\<forall>n. os_path_join d [candidate b x n] = pre @ candidate b x n"
    using join_candidate by blast
  from a p have "candidate b x m = candidate b x n" by simp
  then show ?thesis by (rule candidate_inject)
qed

lemma finite_taken: "finite (taken fs d b x c)"
proof -
  have "inj_on (\<lambda>n. os_path_join d [candidate b x n]) (taken fs d b x c)"
    by (auto simp: inj_on_def dest: join_candidate_inject)
  moreover have "(\<lambda>n. os_path_join d [candidate b x n]) ` taken fs d b x c \<subseteq> set fs"
    by (auto simp: taken_def)
  ultimately show ?thesis
    by (metis finite_imageD finite_subset List.finite_set)
qed

lemma taken_Suc:
  "taken fs d b x (Suc c) = taken fs d b x c - {c}"
  by (auto simp: taken_def)

termination unique_name
proof (relation "measure (\<lambda>(fs, d, b, x, c, f).
          2 * card (taken fs d b x c) + (if os_path_join d [f] \<in> set fs then 1 else 0))")
  show "wf (measure (\<lambda>(fs, d, b, x, c, f).
          2 * card (taken fs d b x c) + (if os_path_join d [f] \<in> set fs then 1 else 0)))"
    by simp
next
  fix d b x :: pystr and c :: nat and f :: pystr and fs :: "pystr list"
  assume "os_path_join d [f] \<in> set fs"
  show "((fs, d, b, x, c + 1, b @ [95] @ py_str c @ x), (fs, d, b, x, c, f))
          \<in> measure (\<lambda>(fs, d, b, x, c, f).
               2 * card (taken fs d b x c) + (if os_path_join d [f] \<in> set fs then 1 else 0))"
  proof (cases "os_path_join d [candidate b x c] \<in> set fs")
    case True
    then have "c \<in> taken fs d b x c" by (simp add: taken_def)
    then have "card (taken fs d b x c - {c}) < card (taken fs d b x c)"
      by (rule card_Diff1_less [OF finite_taken])
    then have "card (taken fs d b x (Suc c)) < card (taken fs d b x c)"
      by (simp only: taken_Suc)
    with True \<open>os_path_join d [f] \<in> set fs\<close> show ?thesis
      by (simp add: candidate_def)
  next
    case False
    then have "taken fs d b x (Suc c) = taken fs d b x c"
      by (auto simp: taken_def intro: le_neq_implies_less Suc_leI dest: Suc_leD)
    with False \<open>os_path_join d [f] \<in> set fs\<close> show ?thesis
      by (simp add: candidate_def)
  qed
qed

declare unique_name.simps [simp del]

section \<open>Properties of the taxonomy\<close>

lemmas subject_defs =
  Matematika_def Algebra_def Geometriya_def Russkiy_def Literatura_def Istoriya_def
  Grecheskiy_def Latyn_def Biologiya_def Angliyskiy_def Nemetskiy_def Geografiya_def
  Fizika_def Khimiya_def

lemma subjects_of_int_7:
  "subjects_of_int 7 =
     [Algebra, Geometriya] @ base_subjects @ [Geografiya, Fizika, Khimiya]"
  by (simp add: subjects_of_int_def)

lemma Geografiya_in: "Geografiya \<in> set (subjects_of_int g)"
  by (simp add: subjects_of_int_def)

lemma Fizika_in: "Fizika \<in> set (subjects_of_int g) \<longleftrightarrow> 6 \<le> g"
  by (simp add: subjects_of_int_def base_subjects_def subject_defs)

lemma Khimiya_in: "Khimiya \<in> set (subjects_of_int g) \<longleftrightarrow> 7 \<le> g"
  by (simp add: subjects_of_int_def base_subjects_def subject_defs)

lemma Matematika_in: "Matematika \<in> set (subjects_of_int g) \<longleftrightarrow> g \<in> {5, 6}"
  by (simp add: subjects_of_int_def base_subjects_def subject_defs)

lemma Algebra_in: "Algebra \<in> set (subjects_of_int g) \<longleftrightarrow> g \<notin> {5, 6}"
  by (simp add: subjects_of_int_def base_subjects_def subject_defs)

lemma Geometriya_in: "Geometriya \<in> set (subjects_of_int g) \<longleftrightarrow> g \<notin> {5, 6}"
  by (simp add: subjects_of_int_def base_subjects_def subject_defs)

text \<open>
  C1.  For every grade \<open>g\<close> from 5 to 11, written as any string that \<open>int\<close> reads as \<open>g\<close>,
  \<open>get_subjects_for_class\<close> returns a list that contains Geography; contains Physics iff
  \<open>g \<ge> 6\<close>; contains Chemistry iff \<open>g \<ge> 7\<close>; contains the combined Mathematics iff
  \<open>g\<close> is 5 or 6, and otherwise contains both Algebra and Geometry and not Mathematics; and
  for \<open>g = 7\<close> the list is exactly Algebra, Geometry, the eight core subjects in their fixed
  order, Geography, Physics, Chemistry.  The result is a function of the argument alone.
\<close>

theorem C1_subjects_for_grade:
  assumes "py_int e s = Some g" and "5 \<le> g" and "g \<le> 11"
  shows "\<exists>subjects. get_subjects_for_class e (Some s) = Inr subjects
           \<and> Geografiya \<in> set subjects
           \<and> (Fizika \<in> set subjects \<longleftrightarrow> 6 \<le> g)
           \<and> (Khimiya \<in> set subjects \<longleftrightarrow> 7 \<le> g)
           \<and> (Matematika \<in> set subjects \<longleftrightarrow> g \<in> {5, 6})
           \<and> (g \<notin> {5, 6} \<longrightarrow>
                 Algebra \<in> set subjects \<and> Geometriya \<in> set subjects
                 \<and> Matematika \<notin> set subjects)
           \<and> (g = 7 \<longrightarrow> subjects =
                 [Algebra, Geometriya, Russkiy, Literatura, Istoriya, Grecheskiy, Latyn,
                  Biologiya, Angliyskiy, Nemetskiy, Geografiya, Fizika, Khimiya])"
proof -
  have r: "get_subjects_for_class e (Some s) = Inr (subjects_of_int g)"
    using assms(1) by (simp add: get_subjects_for_class_def)
  have seven: "g = 7 \<longrightarrow> subjects_of_int g =
      [Algebra, Geometriya, Russkiy, Literatura, Istoriya, Grecheskiy, Latyn,
       Biologiya, Angliyskiy, Nemetskiy, Geografiya, Fizika, Khimiya]"
    by (simp add: subjects_of_int_7 base_subjects_def)
  show ?thesis
    using r seven Geografiya_in [of g] Fizika_in [of g] Khimiya_in [of g]
      Matematika_in [of g] Algebra_in [of g] Geometriya_in [of g]
    by blast
qed


lemma env0_int_7: "py_int env0 [55] = Some 7"
  by (simp add: env0_def ascii_int_def ascii_digits_def digits_value_def)

theorem C1_subjects_for_grade_witness:
  "py_int env0 [55] = Some 7 \<and> (5::int) \<le> 7 \<and> (7::int) \<le> 11
   \<and> get_subjects_for_class env0 (Some [55]) =
       Inr [Algebra, Geometriya, Russkiy, Literatura, Istoriya, Grecheskiy, Latyn,
            Biologiya, Angliyskiy, Nemetskiy, Geografiya, Fizika, Khimiya]"
  using env0_int_7 C1_subjects_for_grade [OF env0_int_7] by auto

section \<open>The download counter statement\<close>

lemma key_match_downloads [simp]:
  "key_match c s k t (m\<lparr>m_downloads := n\<rparr>) = key_match c s k t m"
  by (simp add: key_match_def)

lemma funpow_map: "(map (f :: 'a \<Rightarrow> 'a) ^^ n) xs = map (f ^^ n) xs"
  by (induction n) simp_all

lemma bump_funpow:
  "((\<lambda>m. if key_match c s k t m then m\<lparr>m_downloads := m_downloads m + 1\<rparr> else m) ^^ n) m =
     (if key_match c s k t m then m\<lparr>m_downloads := m_downloads m + int n\<rparr> else m)"
  by (induction n) (simp_all add: add.assoc)

lemma increment_downloads_funpow:
  "(increment_downloads c s k t ^^ n) rows =
     map (\<lambda>m. if key_match c s k t m then m\<lparr>m_downloads := m_downloads m + int n\<rparr> else m) rows"
proof -
  have "increment_downloads c s k t =
          map (\<lambda>m. if key_match c s k t m then m\<lparr>m_downloads := m_downloads m + 1\<rparr> else m)"
    by (rule ext) (simp add: increment_downloads_def)
  then show ?thesis
    by (simp add: funpow_map bump_funpow)
qed

text \<open>
  C7.  The increment of the download counter on a key \<open>(c, s, k, t)\<close> keeps the number and
  the order of the rows; every row that matches the key has its counter raised by exactly
  one and no other field changed; every other row is unchanged.  Repeated \<open>n\<close> times it
  raises the counter of every matching row by \<open>n\<close>, so a row inserted with the key and
  counter 0 shows \<open>n\<close>.
\<close>

theorem C7_increment_downloads:
  "length (increment_downloads c s k t rows) = length rows
   \<and> (\<forall>i < length rows.
         increment_downloads c s k t rows ! i =
           (if key_match c s k t (rows ! i)
            then (rows ! i)\<lparr>m_downloads := m_downloads (rows ! i) + 1\<rparr> else rows ! i))
   \<and> (\<forall>i < length rows.
         (increment_downloads c s k t ^^ n) rows ! i =
           (if key_match c s k t (rows ! i)
            then (rows ! i)\<lparr>m_downloads := m_downloads (rows ! i) + int n\<rparr> else rows ! i))
   \<and> (\<forall>m. key_match c s k t m \<and> m_downloads m = 0 \<longrightarrow>
         m_downloads (last ((increment_downloads c s k t ^^ n) (rows @ [m]))) = int n)"
proof -
  have one: "\<forall>i < length rows.
         increment_downloads c s k t rows ! i =
           (if key_match c s k t (rows ! i)
            then (rows ! i)\<lparr>m_downloads := m_downloads (rows ! i) + 1\<rparr> else rows ! i)"
    by (simp add: increment_downloads_def)
  have many: "\<forall>i < length rows.
         (increment_downloads c s k t ^^ n) rows ! i =
           (if key_match c s k t (rows ! i)
            then (rows ! i)\<lparr>m_downloads := m_downloads (rows ! i) + int n\<rparr> else rows ! i)"
    by (simp add: increment_downloads_funpow)
  have fresh: "\<forall>m. key_match c s k t m \<and> m_downloads m = 0 \<longrightarrow>
         m_downloads (last ((increment_downloads c s k t ^^ n) (rows @ [m]))) = int n"
    by (simp add: increment_downloads_funpow)
  have len: "length (increment_downloads c s k t rows) = length rows"
    by (simp add: increment_downloads_def)
  from len one many fresh show ?thesis by blast
qed

theorem C7_increment_downloads_witness:
  "(increment_downloads [57] Fizika [1] [2] ^^ 3)
       [material0 1 [57] Fizika [1] [2] 0, material0 2 [56] Fizika [1] [2] 5,
        material0 3 [57] Fizika [1] [2] 4] =
     [material0 1 [57] Fizika [1] [2] 3, material0 2 [56] Fizika [1] [2] 5,
      material0 3 [57] Fizika [1] [2] 7]
   \<and> m_downloads (last ((increment_downloads [57] Fizika [1] [2] ^^ 3)
        ([material0 2 [56] Fizika [1] [2] 5] @ [material0 1 [57] Fizika [1] [2] 0]))) = 3"
proof -
  have a: "key_match [57] Fizika [1] [2] (material0 1 [57] Fizika [1] [2] 0)
           \<and> m_downloads (material0 1 [57] Fizika [1] [2] 0) = 0"
    by (simp add: key_match_def material0_def)
  have b: "(increment_downloads [57] Fizika [1] [2] ^^ 3)
       [material0 1 [57] Fizika [1] [2] 0, material0 2 [56] Fizika [1] [2] 5,
        material0 3 [57] Fizika [1] [2] 4] =
     [material0 1 [57] Fizika [1] [2] 3, material0 2 [56] Fizika [1] [2] 5,
      material0 3 [57] Fizika [1] [2] 7]"
    by (simp add: increment_downloads_funpow key_match_def material0_def)
  from a b C7_increment_downloads [where c = "[57]" and s = Fizika and k = "[1]" and t = "[2]"
      and rows = "[material0 2 [56] Fizika [1] [2] 5]" and n = 3]
  show ?thesis by simp
qed

section \<open>Registration and the admin check\<close>

lemma find_append_new:
  "find P xs = None \<Longrightarrow> P x \<Longrightarrow> find P (xs @ [x]) = Some x"
  by (induction xs) (auto split: if_splits)

lemma find_None_filter: "find P xs = None \<Longrightarrow> filter P xs = []"
  by (induction xs) (auto split: if_splits)

lemma find_None_notin: "find (\<lambda>r. f r = k) xs = None \<Longrightarrow> k \<notin> f ` set xs"
  by (induction xs) (auto split: if_splits)

lemma distinct_filter_key:
  "distinct (map f xs) \<Longrightarrow> find (\<lambda>r. f r = k) xs = Some x \<Longrightarrow> filter (\<lambda>r. f r = k) xs = [x]"
proof (induction xs)
  case Nil
  then show ?case by simp
next
  case (Cons a xs)
  show ?case
  proof (cases "f a = k")
    case True
    with Cons.prems have "k \<notin> f ` set xs" and "a = x" by auto
    then have "filter (\<lambda>r. f r = k) xs = []"
      by (auto simp: filter_empty_conv)
    with True \<open>a = x\<close> show ?thesis by simp
  next
    case False
    with Cons show ?thesis by simp
  qed
qed

text \<open>
  C9.  \<open>get_user\<close> registers idempotently.  With the primary key of the users table
  (no two rows share a \<open>telegram_id\<close>): when a row for the identity exists, its role is
  returned and the world is unchanged; otherwise exactly one row, with role
  \<open>student\<close>, is appended and nothing else changes.  A second call returns the same
  role, changes nothing, and the table holds exactly one row for the identity, still
  with distinct keys.
\<close>

theorem C9_get_user_idempotent:
  assumes "distinct (map telegram_id (users w))"
  shows "(case find (\<lambda>r. telegram_id r = uid) (users w) of
            Some row \<Rightarrow> get_user now uid w = (w, role row)
          | None \<Rightarrow>
              get_user now uid w =
                (w\<lparr>users := users w @
                     [\<lparr>telegram_id = uid, username = None, first_name = None,
                       role = ''student'', join_date = now\<rparr>]\<rparr>, ''student''))
         \<and> get_user now' uid (fst (get_user now uid w)) = get_user now uid w
         \<and> length (filter (\<lambda>r. telegram_id r = uid) (users (fst (get_user now uid w)))) = 1
         \<and> distinct (map telegram_id (users (fst (get_user now uid w))))"
proof (cases "find (\<lambda>r. telegram_id r = uid) (users w)")
  case None
  let ?new = "\<lparr>telegram_id = uid, username = None, first_name = None,
                role = ''student'', join_date = now\<rparr>"
  have g: "get_user now uid w = (w\<lparr>users := users w @ [?new]\<rparr>, ''student'')"
    using None by (simp add: get_user_def)
  have f: "find (\<lambda>r. telegram_id r = uid) (users w @ [?new]) = Some ?new"
    using None by (rule find_append_new) simp
  have again: "get_user now' uid (w\<lparr>users := users w @ [?new]\<rparr>) =
                 (w\<lparr>users := users w @ [?new]\<rparr>, ''student'')"
    using f by (simp add: get_user_def)
  have one: "length (filter (\<lambda>r. telegram_id r = uid) (users w @ [?new])) = 1"
    using find_None_filter [OF None] by simp
  have d: "distinct (map telegram_id (users w @ [?new]))"
    using assms find_None_notin [OF None] by simp
  show ?thesis using None g again one d by simp
next
  case (Some row)
  have g: "get_user now uid w = (w, role row)"
    using Some by (simp add: get_user_def)
  have again: "get_user now' uid w = (w, role row)"
    using Some by (simp add: get_user_def)
  have one: "length (filter (\<lambda>r. telegram_id r = uid) (users w)) = 1"
    using distinct_filter_key [OF assms Some] by simp
  show ?thesis using Some g again one assms by simp
qed

theorem C9_get_user_idempotent_witness:
  "distinct (map telegram_id (users world0))
   \<and> get_user [50] 7 world0 =
       (world0\<lparr>users := [\<lparr>telegram_id = 7, username = None, first_name = None,
                           role = ''student'', join_date = [50]\<rparr>]\<rparr>, ''student'')
   \<and> get_user [51] 7 (fst (get_user [50] 7 world0)) = get_user [50] 7 world0
   \<and> length (filter (\<lambda>r. telegram_id r = 7) (users (fst (get_user [50] 7 world0)))) = 1"
proof -
  have d: "distinct (map telegram_id (users world0))"
    by (simp add: world0_def)
  have n: "find (\<lambda>r. telegram_id r = 7) (users world0) = None"
    by (simp add: world0_def)
  have g: "get_user [50] 7 world0 =
       (world0\<lparr>users := [\<lparr>telegram_id = 7, username = None, first_name = None,
                           role = ''student'', join_date = [50]\<rparr>]\<rparr>, ''student'')"
    by (simp add: get_user_def world0_def)
  from d g C9_get_user_idempotent [where w = world0 and uid = 7 and now = "[50]" and now' = "[51]", OF d]
  show ?thesis by simp
qed

lemma snd_get_user:
  "snd (get_user now uid w) =
     (case find (\<lambda>r. telegram_id r = uid) (users w) of
        None \<Rightarrow> ''student'' | Some row \<Rightarrow> role row)"
  by (simp add: get_user_def split: option.splits)

lemma is_admin_eq:
  "is_admin e now uid w =
     (fst (get_user now uid w),
      snd (get_user now uid w) = ''admin'' \<or> uid \<in> set (ADMIN_IDS e))"
  by (simp add: is_admin_def split: prod.splits)

text \<open>
  C10.  \<open>is_admin\<close> answers true exactly when the role stored for the identity is
  \<open>admin\<close> or the identity is in \<open>ADMIN_IDS\<close> (an identity with no row is registered as
  a student by the check itself).  So for an identity in \<open>ADMIN_IDS\<close>, whatever the
  users table holds, the AdminAdd and AdminDelete entry points enter their first state,
  and the admin panel and the statistics answer with their report and the admin keyboard
  instead of the refusal.
\<close>

theorem C10_is_admin_allow_list:
  "(snd (is_admin e now uid w) \<longleftrightarrow>
      (case find (\<lambda>r. telegram_id r = uid) (users w) of
         None \<Rightarrow> False | Some row \<Rightarrow> role row = ''admin'')
      \<or> uid \<in> set (ADMIN_IDS e))
   \<and> (effective_user_id u \<in> set (ADMIN_IDS e) \<longrightarrow>
        snd (admin_add_material_start e u w) = Inr ADMIN_ADD_CLASS
        \<and> snd (admin_delete_material_start e u w) = Inr ADMIN_DELETE_SELECT_CLASS
        \<and> (\<exists>counts. outbox (admin_panel e u w) =
              outbox w @ [Reply (Msg ''Administrator panel'' counts) admin_panel_keyboard])
        \<and> (\<exists>counts. outbox (admin_statistics e u w) =
              outbox w @ [Reply (Msg ''Bot statistics'' counts) admin_panel_keyboard]))"
proof -
  have iff: "snd (is_admin e now uid w) \<longleftrightarrow>
      (case find (\<lambda>r. telegram_id r = uid) (users w) of
         None \<Rightarrow> False | Some row \<Rightarrow> role row = ''admin'')
      \<or> uid \<in> set (ADMIN_IDS e)"
    by (simp add: is_admin_eq snd_get_user split: option.splits)
  have ob: "outbox (fst (get_user t i w)) = outbox w" for t i
    by (simp add: get_user_def split: option.splits)
  have entry: "effective_user_id u \<in> set (ADMIN_IDS e) \<longrightarrow>
        snd (admin_add_material_start e u w) = Inr ADMIN_ADD_CLASS
        \<and> snd (admin_delete_material_start e u w) = Inr ADMIN_DELETE_SELECT_CLASS
        \<and> (\<exists>counts. outbox (admin_panel e u w) =
              outbox w @ [Reply (Msg ''Administrator panel'' counts) admin_panel_keyboard])
        \<and> (\<exists>counts. outbox (admin_statistics e u w) =
              outbox w @ [Reply (Msg ''Bot statistics'' counts) admin_panel_keyboard])"
    by (simp add: admin_add_material_start_def admin_delete_material_start_def
        admin_panel_def admin_statistics_def is_admin_eq reply_def ob)
  from iff entry show ?thesis by blast
qed

theorem C10_is_admin_allow_list_witness:
  "effective_user_id (update0 1001 []) \<in> set (ADMIN_IDS env0)
   \<and> find (\<lambda>r. telegram_id r = 1001) (users world0) = None
   \<and> snd (is_admin env0 [50] 1001 world0)
   \<and> \<not> snd (is_admin env0 [50] 7 world0)
   \<and> snd (admin_add_material_start env0 (update0 1001 []) world0) = Inr ADMIN_ADD_CLASS
   \<and> snd (admin_delete_material_start env0 (update0 1001 []) world0)
       = Inr ADMIN_DELETE_SELECT_CLASS"
proof -
  have a: "effective_user_id (update0 1001 []) \<in> set (ADMIN_IDS env0)"
    by (simp add: update0_def env0_def)
  have n: "find (\<lambda>r. telegram_id r = 1001) (users world0) = None"
    and n7: "find (\<lambda>r. telegram_id r = 7) (users world0) = None"
    by (simp_all add: world0_def)
  have m: "1001 \<in> set (ADMIN_IDS env0)" and m7: "7 \<notin> set (ADMIN_IDS env0)"
    by (simp_all add: env0_def)
  from a n n7 m m7
    C10_is_admin_allow_list [where e = env0 and now = "[50]" and uid = 1001 and w = world0
      and u = "update0 1001 []"]
    C10_is_admin_allow_list [where e = env0 and now = "[50]" and uid = 7 and w = world0
      and u = "update0 1001 []"]
  show ?thesis by simp
qed

section \<open>File names\<close>






lemma fold_complete_materials [simp]:
  "materials (fold (complete_and_notify u details) ps w) = materials w"
  by (induction ps arbitrary: w) (simp_all add: complete_and_notify_def split: prod.splits)

lemma fold_complete_files [simp]:
  "files (fold (complete_and_notify u details) ps w) = files w"
  by (induction ps arbitrary: w) (simp_all add: complete_and_notify_def split: prod.splits)







section \<open>Requests answered by an upload\<close>



lemma user_data_fold_complete [simp]:
  "user_data (fold (complete_and_notify u details) ps w) = user_data w"
  by (induction ps arbitrary: w) (simp_all add: complete_and_notify_def split: prod.splits)

lemma users_fold_complete [simp]:
  "users (fold (complete_and_notify u details) ps w) = users w"
  by (induction ps arbitrary: w) (simp_all add: complete_and_notify_def split: prod.splits)








section \<open>Back navigation\<close>

lemma user_data_reply [simp]: "user_data (reply m k w) = user_data w"
  by (simp add: reply_def)


















section \<open>What the handlers do to the materials table\<close>

lemma materials_reply [simp]: "materials (reply m k w) = materials w"
  by (simp add: reply_def)

lemma materials_put [simp]: "materials (put f w) = materials w"
  by (simp add: put_def)

lemma materials_get_user [simp]: "materials (fst (get_user now uid w)) = materials w"
  by (simp add: get_user_def split: option.splits)

lemma materials_is_admin [simp]: "materials (fst (is_admin e now uid w)) = materials w"
  by (simp add: is_admin_eq)

lemma materials_admin_panel [simp]: "materials (admin_panel e u w) = materials w"
  by (simp add: admin_panel_def split: prod.splits)
    (metis fst_conv materials_is_admin)

lemma materials_admin_statistics [simp]: "materials (admin_statistics e u w) = materials w"
  by (simp add: admin_statistics_def split: prod.splits)
    (metis fst_conv materials_is_admin)

lemma materials_start [simp]: "materials (start e u w) = materials w"
  by (simp add: start_def Let_def split: prod.splits)
    (metis fst_conv materials_get_user)

lemma materials_notify_admins [simp]: "materials (notify_admins e u m w) = materials w"
  by (simp add: notify_admins_def)

lemma materials_send_file [simp]:
  "materials (fst (send_file u p n d t w)) = materials w"
  by (simp add: send_file_def)

lemma le_fold_max: "(s::int) \<le> fold max ids s"
proof (induction ids arbitrary: s)
  case Nil
  then show ?case by simp
next
  case (Cons a ids)
  have "s \<le> max a s" by simp
  also have "\<dots> \<le> fold max ids (max a s)" by (rule Cons.IH)
  finally show ?case by simp
qed

lemma member_le_fold_max: "x \<in> set ids \<Longrightarrow> (x::int) \<le> fold max ids s"
proof (induction ids arbitrary: s)
  case Nil
  then show ?case by simp
next
  case (Cons a ids)
  show ?case
  proof (cases "x = a")
    case True
    have "a \<le> max a s" by simp
    also have "\<dots> \<le> fold max ids (max a s)" by (rule le_fold_max)
    finally show ?thesis using True by simp
  next
    case False
    with Cons.prems have "x \<in> set ids" by simp
    then show ?thesis using Cons.IH by simp
  qed
qed

lemma next_id_fresh: "next_id seq ids \<notin> set ids"
proof
  assume "next_id seq ids \<in> set ids"
  then have "next_id seq ids \<le> fold max ids seq" by (rule member_le_fold_max)
  then show False by (simp add: next_id_def)
qed

lemma materials_add_material:
  "add_material u c s k t w = Inr w' \<Longrightarrow>
     \<exists>row. materials w' = materials w @ [row] \<and> m_downloads row = 0
        \<and> m_id row = next_id (material_seq w) (map m_id (materials w))"
  by (auto simp: add_material_def Let_def put_def reply_def
      split: option.splits if_splits prod.splits)

lemma materials_admin_add_file:
  "materials (fst (admin_add_file u w)) = materials w
   \<or> (\<exists>row. materials (fst (admin_add_file u w)) = materials w @ [row]
         \<and> m_downloads row = 0 \<and> m_id row \<notin> m_id ` set (materials w))"
proof (cases "add_material u (the (ud_add_class_num (user_data w)))
    (the (ud_add_subject (user_data w))) (the (ud_add_category (user_data w)))
    (the (ud_add_topic (user_data w))) w")
  case (Inl err)
  then show ?thesis by (simp add: admin_add_file_def Let_def)
next
  case (Inr w')
  from materials_add_material [OF Inr] obtain row where
    "materials w' = materials w @ [row]" "m_downloads row = 0"
    "m_id row = next_id (material_seq w) (map m_id (materials w))" by blast
  moreover from this(3) have "m_id row \<notin> m_id ` set (materials w)"
    using next_id_fresh [of "material_seq w" "map m_id (materials w)"] by simp
  ultimately show ?thesis using Inr by (simp add: admin_add_file_def Let_def)
qed

lemma materials_delete_material:
  "delete_material w = Inr w' \<Longrightarrow> set (materials w') \<subseteq> set (materials w)"
  by (auto simp: delete_material_def Let_def reply_def split: option.splits)

lemma materials_admin_delete_confirm:
  "set (materials (fst (admin_delete_confirm u w))) \<subseteq> set (materials w)"
proof (cases "delete_material w")
  case (Inl err)
  then show ?thesis by (simp add: admin_delete_confirm_def Let_def)
next
  case (Inr w')
  with materials_delete_material [OF Inr] show ?thesis
    by (simp add: admin_delete_confirm_def Let_def)
qed

text \<open>
  The terminal step of Browse: once the session holds its five values and the text is
  one of the offered topics, the table after the handler is the table with the counter
  statement applied (which changes nothing when no row matches), whatever happens to
  the delivery; in every other branch the table is unchanged.
\<close>

lemma increment_downloads_no_match:
  "filter (key_match c s k t) rows = [] \<Longrightarrow> increment_downloads c s k t rows = rows"
  by (simp add: increment_downloads_def filter_empty_conv map_idI)

lemma materials_select_topic_found:
  assumes "message_text u \<noteq> Nazad_k_kategoriyam"
    and "ud_class (user_data w) = Some c" and "ud_subject (user_data w) = Some s"
    and "ud_category (user_data w) = Some k" and "ud_topics (user_data w) = Some topics"
    and "ud_materials_info (user_data w) = Some info"
    and "message_text u \<in> set topics"
  shows "materials (fst (select_topic u w)) =
           increment_downloads c s k (message_text u) (materials w)"
proof (cases "filter (key_match c s k (message_text u)) (materials w)")
  case Nil
  from increment_downloads_no_match [OF Nil] Nil assms show ?thesis
    by (simp add: select_topic_def Let_def)
next
  case (Cons row rows)
  define w1 where "w1 = w\<lparr>materials := increment_downloads c s k (message_text u) (materials w)\<rparr>"
  obtain w2 delivered where
    w2: "send_file u (m_file_path row) (m_file_name row) (m_downloads row) (message_text u) w1
           = (w2, delivered)"
    by (cases "send_file u (m_file_path row) (m_file_name row) (m_downloads row)
                 (message_text u) w1") blast
  obtain w3 user_role where
    w3: "get_user (CURRENT_TIMESTAMP u) (effective_user_id u) w2 = (w3, user_role)"
    by (cases "get_user (CURRENT_TIMESTAMP u) (effective_user_id u) w2") blast
  have "materials w3 = materials w2"
    using materials_get_user [of "CURRENT_TIMESTAMP u" "effective_user_id u" w2] w3 by simp
  also have "\<dots> = materials w1"
    using materials_send_file [of u "m_file_path row" "m_file_name row" "m_downloads row"
        "message_text u" w1] w2 by simp
  also have "\<dots> = increment_downloads c s k (message_text u) (materials w)"
    by (simp add: w1_def)
  finally show ?thesis
    using assms Cons w2 w3 by (simp add: select_topic_def Let_def w1_def)
qed

lemma materials_select_topic_other:
  assumes "message_text u = Nazad_k_kategoriyam
    \<or> ud_class (user_data w) = None \<or> ud_subject (user_data w) = None
    \<or> ud_category (user_data w) = None \<or> ud_topics (user_data w) = None
    \<or> ud_materials_info (user_data w) = None
    \<or> message_text u \<notin> set (the (ud_topics (user_data w)))"
  shows "materials (fst (select_topic u w)) = materials w"
proof (cases "message_text u = Nazad_k_kategoriyam")
  case True
  then show ?thesis by (simp add: select_topic_def Let_def)
next
  case False
  note not_back = this
  show ?thesis
  proof (cases "ud_class (user_data w) = None \<or> ud_subject (user_data w) = None
    \<or> ud_category (user_data w) = None \<or> ud_topics (user_data w) = None
    \<or> ud_materials_info (user_data w) = None")
    case True
    with not_back show ?thesis by (simp add: select_topic_def Let_def)
  next
    case False
    with not_back assms have "message_text u \<notin> set (the (ud_topics (user_data w)))" by blast
    with not_back False show ?thesis by (simp add: select_topic_def Let_def)
  qed
qed

lemma materials_select_topic_rows:
  assumes "m' \<in> set (materials (fst (select_topic u w)))"
  shows "\<exists>m\<in>set (materials w). m' = m \<or> m' = m\<lparr>m_downloads := m_downloads m + 1\<rparr>"
proof (cases "message_text u = Nazad_k_kategoriyam
    \<or> ud_class (user_data w) = None \<or> ud_subject (user_data w) = None
    \<or> ud_category (user_data w) = None \<or> ud_topics (user_data w) = None
    \<or> ud_materials_info (user_data w) = None
    \<or> message_text u \<notin> set (the (ud_topics (user_data w)))")
  case True
  from materials_select_topic_other [OF True] assms show ?thesis by auto
next
  case False
  then obtain c s k topics info where
    "message_text u \<noteq> Nazad_k_kategoriyam"
    "ud_class (user_data w) = Some c" "ud_subject (user_data w) = Some s"
    "ud_category (user_data w) = Some k" "ud_topics (user_data w) = Some topics"
    "ud_materials_info (user_data w) = Some info" "message_text u \<in> set topics"
    by auto
  from materials_select_topic_found [OF this] assms show ?thesis
    by (auto simp: increment_downloads_def split: if_splits)
qed

lemma get_user_materials: "get_user now uid w = (w1, r) \<Longrightarrow> materials w1 = materials w"
  using materials_get_user [of now uid w] by simp

lemma is_admin_materials: "is_admin e now uid w = (w1, r) \<Longrightarrow> materials w1 = materials w"
  using materials_is_admin [of e now uid w] by simp

lemmas keeps_splits =
  prod.splits option.splits list.splits sum.splits if_splits

lemma materials_get_materials_start: "materials (fst (get_materials_start u w)) = materials w"
  by (simp add: get_materials_start_def)

lemma materials_select_class: "materials (fst (select_class e u w)) = materials w"
  by (auto simp: select_class_def Let_def split: keeps_splits dest: get_user_materials)

lemma materials_select_subject: "materials (fst (select_subject e u w)) = materials w"
  by (auto simp: select_subject_def Let_def split: keeps_splits)

lemma materials_select_category: "materials (fst (select_category e u w)) = materials w"
  by (auto simp: select_category_def Let_def split: keeps_splits)

lemma materials_request_material_start:
  "materials (fst (request_material_start u w)) = materials w"
  by (simp add: request_material_start_def)

lemma materials_request_class: "materials (fst (request_class e u w)) = materials w"
  by (auto simp: request_class_def Let_def split: keeps_splits dest: get_user_materials)

lemma materials_request_subject: "materials (fst (request_subject e u w)) = materials w"
  by (auto simp: request_subject_def Let_def split: keeps_splits)

lemma materials_request_category: "materials (fst (request_category e u w)) = materials w"
  by (auto simp: request_category_def Let_def split: keeps_splits)

lemma materials_request_topic: "materials (fst (request_topic u w)) = materials w"
  by (auto simp: request_topic_def Let_def split: keeps_splits)

lemma materials_request_description:
  "materials (fst (request_description e u w)) = materials w"
  by (auto simp: request_description_def Let_def split: keeps_splits dest: is_admin_materials)

lemma materials_admin_add_material_start:
  "materials (fst (admin_add_material_start e u w)) = materials w"
  by (auto simp: admin_add_material_start_def Let_def split: keeps_splits
      dest: is_admin_materials)

lemma materials_admin_add_class: "materials (fst (admin_add_class e u w)) = materials w"
  by (auto simp: admin_add_class_def Let_def split: keeps_splits dest: is_admin_materials)

lemma materials_admin_add_subject: "materials (fst (admin_add_subject e u w)) = materials w"
  by (auto simp: admin_add_subject_def Let_def split: keeps_splits)

lemma materials_admin_add_category: "materials (fst (admin_add_category e u w)) = materials w"
  by (auto simp: admin_add_category_def Let_def split: keeps_splits)

lemma materials_admin_add_topic: "materials (fst (admin_add_topic u w)) = materials w"
  by (auto simp: admin_add_topic_def Let_def split: keeps_splits)

lemma materials_admin_delete_material_start:
  "materials (fst (admin_delete_material_start e u w)) = materials w"
  by (auto simp: admin_delete_material_start_def Let_def split: keeps_splits
      dest: is_admin_materials)

lemma materials_admin_delete_select_class:
  "materials (fst (admin_delete_select_class e u w)) = materials w"
  by (auto simp: admin_delete_select_class_def Let_def split: keeps_splits
      dest: is_admin_materials)

lemma materials_admin_delete_select_subject:
  "materials (fst (admin_delete_select_subject e u w)) = materials w"
  by (auto simp: admin_delete_select_subject_def Let_def split: keeps_splits)

lemma materials_admin_delete_select_category:
  "materials (fst (admin_delete_select_category e u w)) = materials w"
  by (auto simp: admin_delete_select_category_def Let_def split: keeps_splits)

lemma materials_admin_delete_select_topic:
  "materials (fst (admin_delete_select_topic u w)) = materials w"
  by (auto simp: admin_delete_select_topic_def Let_def split: keeps_splits)

lemmas materials_kept =
  materials_get_materials_start materials_select_class materials_select_subject
  materials_select_category materials_request_material_start materials_request_class
  materials_request_subject materials_request_category materials_request_topic
  materials_request_description materials_admin_add_material_start
  materials_admin_add_class materials_admin_add_subject materials_admin_add_category
  materials_admin_add_topic materials_admin_delete_material_start
  materials_admin_delete_select_class materials_admin_delete_select_subject
  materials_admin_delete_select_category materials_admin_delete_select_topic

lemma fst_returning [simp]: "fst (returning r) = fst r"
  by (simp add: returning_def)

lemma materials_run_kept:
  "h \<noteq> H_select_topic \<Longrightarrow> h \<noteq> H_admin_add_file \<Longrightarrow> h \<noteq> H_admin_delete_confirm \<Longrightarrow>
     materials (fst (run e h u w)) = materials w"
  by (cases h) (simp_all add: materials_kept)

text \<open>
  C5 (amended).  The download counter of a material starts at zero when the material is
  added and is never decreased or reset afterwards: for every handler, every row of the
  materials table after the handler is a row from before, unchanged or (only after the
  terminal step of Browse) with its counter one higher, or it is the row that the upload
  step has just added, with a new id and counter zero.  The terminal step of Browse
  adds one to the counter of every row with the chosen class, subject, category and
  topic as soon as the row is found, before the file is sent: the table afterwards
  depends on the session, the text and the table, and neither on the files on disk nor
  on whether the document could be delivered.
\<close>

theorem C5_download_counter:
  "(\<forall>m'\<in>set (materials (fst (run e h u w))).
      (\<exists>m\<in>set (materials w).
          m' = m \<or> (h = H_select_topic \<and> m' = m\<lparr>m_downloads := m_downloads m + 1\<rparr>))
      \<or> (h = H_admin_add_file \<and> m_downloads m' = 0 \<and> m_id m' \<notin> m_id ` set (materials w)))
   \<and> (message_text u \<noteq> Nazad_k_kategoriyam
        \<and> ud_class (user_data w) = Some c \<and> ud_subject (user_data w) = Some s
        \<and> ud_category (user_data w) = Some k \<and> ud_topics (user_data w) = Some topics
        \<and> ud_materials_info (user_data w) = Some info \<and> message_text u \<in> set topics
      \<longrightarrow> (\<forall>fs ok. materials (fst (select_topic (u\<lparr>reply_document_ok := ok\<rparr>)
                                       (w\<lparr>files := fs\<rparr>)))
                      = increment_downloads c s k (message_text u) (materials w)))"
proof (intro conjI ballI impI allI)
  fix m'
  assume m': "m' \<in> set (materials (fst (run e h u w)))"
  consider (topic) "h = H_select_topic" | (add) "h = H_admin_add_file"
    | (del) "h = H_admin_delete_confirm"
    | (other) "h \<noteq> H_select_topic" "h \<noteq> H_admin_add_file" "h \<noteq> H_admin_delete_confirm"
    by blast
  then show "(\<exists>m\<in>set (materials w).
          m' = m \<or> (h = H_select_topic \<and> m' = m\<lparr>m_downloads := m_downloads m + 1\<rparr>))
      \<or> (h = H_admin_add_file \<and> m_downloads m' = 0 \<and> m_id m' \<notin> m_id ` set (materials w))"
  proof cases
    case topic
    with m' have "m' \<in> set (materials (fst (select_topic u w)))" by simp
    from materials_select_topic_rows [OF this] topic show ?thesis by blast
  next
    case add
    with m' have in_add: "m' \<in> set (materials (fst (admin_add_file u w)))" by simp
    from materials_admin_add_file [of u w] show ?thesis
    proof
      assume "materials (fst (admin_add_file u w)) = materials w"
      with in_add show ?thesis by auto
    next
      assume "\<exists>row. materials (fst (admin_add_file u w)) = materials w @ [row]
         \<and> m_downloads row = 0 \<and> m_id row \<notin> m_id ` set (materials w)"
      then obtain row where "materials (fst (admin_add_file u w)) = materials w @ [row]"
        "m_downloads row = 0" "m_id row \<notin> m_id ` set (materials w)" by blast
      with in_add add show ?thesis by auto
    qed
  next
    case del
    with m' have "m' \<in> set (materials (fst (admin_delete_confirm u w)))" by simp
    with materials_admin_delete_confirm [of u w] show ?thesis by blast
  next
    case other
    from materials_run_kept [OF other] m' show ?thesis by auto
  qed
next
  fix fs ok
  assume a: "message_text u \<noteq> Nazad_k_kategoriyam
        \<and> ud_class (user_data w) = Some c \<and> ud_subject (user_data w) = Some s
        \<and> ud_category (user_data w) = Some k \<and> ud_topics (user_data w) = Some topics
        \<and> ud_materials_info (user_data w) = Some info \<and> message_text u \<in> set topics"
  have "materials (fst (select_topic (u\<lparr>reply_document_ok := ok\<rparr>) (w\<lparr>files := fs\<rparr>)))
      = increment_downloads c s k (message_text (u\<lparr>reply_document_ok := ok\<rparr>))
          (materials (w\<lparr>files := fs\<rparr>))"
    by (rule materials_select_topic_found [where topics = topics and info = info])
      (use a in simp_all)
  then show "materials (fst (select_topic (u\<lparr>reply_document_ok := ok\<rparr>) (w\<lparr>files := fs\<rparr>)))
      = increment_downloads c s k (message_text u) (materials w)" by simp
qed

lemma topic_world_session:
  "ud_class (user_data topic_world) = Some [55]
   \<and> ud_subject (user_data topic_world) = Some Fizika
   \<and> ud_category (user_data topic_world) = Some Konspekty
   \<and> ud_topics (user_data topic_world) = Some [Zakony_Nyutona]
   \<and> ud_materials_info (user_data topic_world) = Some [(Zakony_Nyutona, 0, asc ''f'')]
   \<and> materials topic_world = [material0 1 [55] Fizika Konspekty Zakony_Nyutona 0]
   \<and> files topic_world = [] \<and> outbox topic_world = []
   \<and> users topic_world = users world0"
  by (simp add: topic_world_def world0_def no_user_data_def)

lemma Zakony_not_Nazad: "Zakony_Nyutona \<noteq> Nazad_k_kategoriyam"
  by (simp add: Zakony_Nyutona_def Nazad_k_kategoriyam_def)

theorem C5_download_counter_witness:
  "message_text (update0 7 Zakony_Nyutona) \<noteq> Nazad_k_kategoriyam
   \<and> ud_class (user_data topic_world) = Some [55]
   \<and> ud_subject (user_data topic_world) = Some Fizika
   \<and> ud_category (user_data topic_world) = Some Konspekty
   \<and> ud_topics (user_data topic_world) = Some [Zakony_Nyutona]
   \<and> ud_materials_info (user_data topic_world) = Some [(Zakony_Nyutona, 0, asc ''f'')]
   \<and> message_text (update0 7 Zakony_Nyutona) \<in> set [Zakony_Nyutona]
   \<and> materials (fst (select_topic ((update0 7 Zakony_Nyutona)\<lparr>reply_document_ok := False\<rparr>)
                        (topic_world\<lparr>files := []\<rparr>)))
       = [material0 1 [55] Fizika Konspekty Zakony_Nyutona 1]
   \<and> list_all (\<lambda>m'. m_downloads m' \<le> 1)
        (materials (fst (run env0 H_select_topic (update0 7 Zakony_Nyutona) topic_world)))"
proof -
  have t: "message_text (update0 7 Zakony_Nyutona) = Zakony_Nyutona"
    by (simp add: update0_def)
  note c5 = C5_download_counter [where e = env0 and h = H_select_topic
      and u = "update0 7 Zakony_Nyutona" and w = topic_world and c = "[55]" and s = Fizika
      and k = Konspekty and topics = "[Zakony_Nyutona]"
      and info = "[(Zakony_Nyutona, 0, asc ''f'')]"]
  have inc: "increment_downloads [55] Fizika Konspekty Zakony_Nyutona
          [material0 1 [55] Fizika Konspekty Zakony_Nyutona 0]
        = [material0 1 [55] Fizika Konspekty Zakony_Nyutona 1]"
    by (simp add: increment_downloads_def key_match_def material0_def)
  from c5 have rows: "\<forall>m'\<in>set (materials (fst (run env0 H_select_topic
        (update0 7 Zakony_Nyutona) topic_world))).
      \<exists>m\<in>set (materials topic_world). m' = m \<or> m' = m\<lparr>m_downloads := m_downloads m + 1\<rparr>"
    by blast
  have le: "\<forall>m'\<in>set (materials (fst (run env0 H_select_topic
        (update0 7 Zakony_Nyutona) topic_world))). m_downloads m' \<le> 1"
  proof
    fix m'
    assume "m' \<in> set (materials (fst (run env0 H_select_topic
        (update0 7 Zakony_Nyutona) topic_world)))"
    with rows obtain m where "m \<in> set (materials topic_world)"
      "m' = m \<or> m' = m\<lparr>m_downloads := m_downloads m + 1\<rparr>" by blast
    then show "m_downloads m' \<le> 1"
      by (auto simp: topic_world_session material0_def)
  qed
  from c5 have "materials (fst (select_topic
        ((update0 7 Zakony_Nyutona)\<lparr>reply_document_ok := False\<rparr>) (topic_world\<lparr>files := []\<rparr>)))
      = increment_downloads [55] Fizika Konspekty (message_text (update0 7 Zakony_Nyutona))
          (materials topic_world)"
    using t Zakony_not_Nazad topic_world_session by simp
  with inc t le Zakony_not_Nazad topic_world_session show ?thesis
    by (simp add: list_all_iff)
qed

text \<open>
  The claim as the specification words it: ``incremented by exactly one each time the
  material's file is successfully delivered to a user''.  A material whose file is
  missing from the disk is not delivered (the user is told that the file was not found),
  and its counter goes from 0 to 1 all the same.
\<close>

theorem C5_counted_without_delivery_counterexample:
  "map m_downloads (materials topic_world) = [0]
   \<and> map m_downloads
       (materials (fst (run env0 H_select_topic (update0 7 Zakony_Nyutona) topic_world))) = [1]
   \<and> outbox (fst (run env0 H_select_topic (update0 7 Zakony_Nyutona) topic_world))
       = [Reply (Msg ''File not found on the server. Tell the administrator.'' [])
            (main_menu False),
          Reply (Msg ''File sent successfully! What next?'' []) (main_menu False)]"
proof -
  have t: "message_text (update0 7 Zakony_Nyutona) = Zakony_Nyutona"
    by (simp add: update0_def)
  show ?thesis
    using Zakony_not_Nazad
    by (simp add: returning_def select_topic_def Let_def t topic_world_session
        increment_downloads_def key_match_def
        send_file_def reply_def put_def get_user_def material0_def update0_def world0_def)
qed

section \<open>Invalid input and missing session values\<close>

lemma split_a_word: "py_split a_word = [a_word]"
  by (simp add: py_split_def a_word_def py_isspace_def)

lemma split_grade_3: "py_split grade_3 = [[51], [1082, 1083, 1072, 1089, 1089]]"
  by (simp add: py_split_def grade_3_def py_isspace_def)

lemma env0_int_a_word: "py_int env0 a_word = None"
  by (simp add: env0_def ascii_int_def ascii_digits_def a_word_def)

lemma env0_isdigit_a_word: "\<not> py_isdigit env0 a_word"
  by (simp add: env0_def ascii_digits_def a_word_def)

lemma env0_int_3: "py_int env0 [51] = Some 3"
  by (simp add: env0_def ascii_int_def ascii_digits_def digits_value_def)

lemma env0_isdigit_3: "py_isdigit env0 [51]"
  by (simp add: env0_def ascii_digits_def)

lemma a_word_not_Nazad: "a_word \<noteq> Nazad" "a_word \<noteq> Nazad_k_kategoriyam"
  "a_word \<noteq> Zakony_Nyutona"
  by (simp_all add: a_word_def Nazad_def Nazad_k_kategoriyam_def Zakony_Nyutona_def)

lemma grade_3_not_Nazad: "grade_3 \<noteq> Nazad"
  by (simp add: grade_3_def Nazad_def)

lemma Fizika_not_Nazad: "Fizika \<noteq> Nazad"
  by (simp add: Fizika_def Nazad_def)

text \<open>
  Where a step validates its input, the invalid input is answered with the prompt of the
  step, the conversation stays, and the session is not touched: the class, subject and
  topic steps of Browse.
\<close>

lemma select_class_invalid:
  "message_text u \<noteq> Nazad \<Longrightarrow> class_num_of e (message_text u) = None \<Longrightarrow>
     run e H_select_class u w =
       (reply (Msg ''Please choose a class from the list:'' []) class_selection_keyboard w,
        Inr (Some SELECT_CLASS))"
  by (simp add: select_class_def returning_def)

lemma select_topic_invalid:
  "message_text u \<noteq> Nazad_k_kategoriyam \<Longrightarrow>
   ud_class (user_data w) \<noteq> None \<Longrightarrow> ud_subject (user_data w) \<noteq> None \<Longrightarrow>
   ud_category (user_data w) \<noteq> None \<Longrightarrow> ud_topics (user_data w) = Some topics \<Longrightarrow>
   ud_materials_info (user_data w) \<noteq> None \<Longrightarrow> message_text u \<notin> set topics \<Longrightarrow>
     run e H_select_topic u w =
       (reply (Msg ''Please choose a topic from the list:'' [])
          (ReplyKeyboardMarkup (map (\<lambda>t. [t]) (take 10 topics) @ [[Nazad_k_kategoriyam]])) w,
        Inr (Some SELECT_TOPIC))"
  by (simp add: select_topic_def returning_def Let_def)

text \<open>
  C3.  Invalid input at the class step of Request and at the topic step of AdminDelete
  is not rejected.  At the class step of Request a word that is no class is written into
  the session under both keys before the subject keyboard is built, and building it
  raises \<open>ValueError\<close>: no prompt is sent.  A grade outside 5 to 11 is accepted and the
  flow goes on to the subject step.  At the topic step of AdminDelete a text that is not
  one of the listed topics is written into the session and the lookup raises
  \<open>KeyError\<close>.  The same inputs at the corresponding steps of Browse are answered with
  the prompt and leave the session as it was.
\<close>

theorem C3_invalid_input_mutates_session:
  "run env0 H_request_class (update0 7 a_word) world0 =
     (world0\<lparr>user_data := no_user_data\<lparr>ud_req_class := Some a_word,
                                          ud_req_class_num := Some a_word\<rparr>\<rparr>,
      Inl ValueError)
   \<and> snd (run env0 H_request_class (update0 7 grade_3) world0) = Inr (Some REQUEST_SUBJECT)
   \<and> ud_req_class_num (user_data (fst (run env0 H_request_class (update0 7 grade_3) world0)))
       = Some [51]
   \<and> run env0 H_admin_delete_select_topic (update0 1001 a_word) delete_world =
       (delete_world\<lparr>user_data := (user_data delete_world)\<lparr>ud_delete_topic := Some a_word\<rparr>\<rparr>,
        Inl KeyError)
   \<and> run env0 H_select_class (update0 7 a_word) world0 =
       (reply (Msg ''Please choose a class from the list:'' []) class_selection_keyboard world0,
        Inr (Some SELECT_CLASS))
   \<and> run env0 H_select_class (update0 7 grade_3) world0 =
       (reply (Msg ''Please choose a class from the list:'' []) class_selection_keyboard world0,
        Inr (Some SELECT_CLASS))
   \<and> run env0 H_select_topic (update0 7 a_word) topic_world =
       (reply (Msg ''Please choose a topic from the list:'' [])
          (ReplyKeyboardMarkup [[Zakony_Nyutona], [Nazad_k_kategoriyam]]) topic_world,
        Inr (Some SELECT_TOPIC))"
proof -
  have t: "\<And>uid txt. message_text (update0 uid txt) = txt"
    by (simp add: update0_def)
  have a: "run env0 H_request_class (update0 7 a_word) world0 =
     (world0\<lparr>user_data := no_user_data\<lparr>ud_req_class := Some a_word,
                                          ud_req_class_num := Some a_word\<rparr>\<rparr>,
      Inl ValueError)"
    by (simp add: request_class_def returning_def Let_def t a_word_not_Nazad split_a_word
        subject_selection_keyboard_def get_subjects_for_class_def env0_int_a_word
        put_def world0_def)
  have g: "subject_selection_keyboard env0 (Some [51]) =
      Inr (ReplyKeyboardMarkup (rows2 (subjects_of_int 3) @ [[Nazad]]))"
    by (simp add: subject_selection_keyboard_def get_subjects_for_class_def env0_int_3)
  have b: "snd (run env0 H_request_class (update0 7 grade_3) world0) = Inr (Some REQUEST_SUBJECT)"
    "ud_req_class_num (user_data (fst (run env0 H_request_class (update0 7 grade_3) world0)))
       = Some [51]"
    by (simp_all add: request_class_def returning_def Let_def t grade_3_not_Nazad split_grade_3
        g put_def reply_def world0_def)
  have c: "run env0 H_admin_delete_select_topic (update0 1001 a_word) delete_world =
       (delete_world\<lparr>user_data := (user_data delete_world)\<lparr>ud_delete_topic := Some a_word\<rparr>\<rparr>,
        Inl KeyError)"
    by (simp add: admin_delete_select_topic_def returning_def Let_def t a_word_not_Nazad
        put_def delete_world_def world0_def no_user_data_def)
  have d: "run env0 H_select_class (update0 7 a_word) world0 =
       (reply (Msg ''Please choose a class from the list:'' []) class_selection_keyboard world0,
        Inr (Some SELECT_CLASS))"
    by (rule select_class_invalid)
      (simp_all add: t a_word_not_Nazad class_num_of_def split_a_word env0_isdigit_a_word)
  have e: "run env0 H_select_class (update0 7 grade_3) world0 =
       (reply (Msg ''Please choose a class from the list:'' []) class_selection_keyboard world0,
        Inr (Some SELECT_CLASS))"
    by (rule select_class_invalid)
      (simp_all add: t grade_3_not_Nazad class_num_of_def split_grade_3 env0_isdigit_3
        env0_int_3)
  have f: "run env0 H_select_topic (update0 7 a_word) topic_world =
       (reply (Msg ''Please choose a topic from the list:'' [])
          (ReplyKeyboardMarkup (map (\<lambda>t. [t]) (take 10 [Zakony_Nyutona])
             @ [[Nazad_k_kategoriyam]])) topic_world,
        Inr (Some SELECT_TOPIC))"
    by (rule select_topic_invalid)
      (simp_all add: t a_word_not_Nazad topic_world_session)
  from a b c d e f show ?thesis by simp
qed

text \<open>
  C6.  The steps of Request do not check the session before they use it.  With an empty
  session (as after a restart), a subject sent at the subject step of Request reads the
  class with \<open>get\<close>, takes the empty list of subjects, and then builds the subject
  keyboard for \<open>None\<close>, which raises \<open>TypeError\<close>: the user is told nothing and the
  conversation stays where it was.  The description step of Request reads its keys by
  index and raises \<open>KeyError\<close>.  The subject step of Browse, on the same session,
  answers with the session error and ends the conversation.
\<close>

theorem C6_missing_session_raises:
  "run env0 H_request_subject (update0 7 Fizika) world0 = (world0, Inl TypeError)
   \<and> run env0 H_request_description (update0 7 a_word) world0 = (world0, Inl KeyError)
   \<and> run env0 H_select_subject (update0 7 Fizika) world0 =
       (reply session_error (main_menu False) world0, Inr (Some END))"
proof -
  have t: "\<And>uid txt. message_text (update0 uid txt) = txt"
    by (simp add: update0_def)
  have n: "a_word \<noteq> Nazad_k_kategorii"
    by (simp add: a_word_def Nazad_k_kategorii_def)
  have d: "ud_req_class_num (user_data world0) = None" "ud_class (user_data world0) = None"
    by (simp_all add: world0_def no_user_data_def)
  have a: "run env0 H_request_subject (update0 7 Fizika) world0 = (world0, Inl TypeError)"
    by (simp add: request_subject_def returning_def Let_def t Fizika_not_Nazad d truthy_def
        subject_selection_keyboard_def get_subjects_for_class_def)
  have b: "run env0 H_request_description (update0 7 a_word) world0 = (world0, Inl KeyError)"
    by (simp add: request_description_def returning_def Let_def t n d)
  have c: "run env0 H_select_subject (update0 7 Fizika) world0 =
       (reply session_error (main_menu False) world0, Inr (Some END))"
    by (simp add: select_subject_def returning_def Let_def t Fizika_not_Nazad d)
  from a b c show ?thesis by simp
qed

end
